theory Spec2Isabelle
  imports Complex_Main
begin

section \<open>Python values, exceptions and the observable trace\<close>

text \<open>
  The server of \<^verbatim>\<open>unified_haptics_api.py\<close> handles JSON datagrams. A decoded JSON
  value is a \<open>pyval\<close>; the keys of a JSON object are strings, so a dict is an association
  list from strings. A JSON number with a fraction is a \<open>PFloat\<close> (carried as a rational;
  the non-standard literals NaN and Infinity are not represented).
\<close>

datatype pyval =
    PNone
  | PBool bool
  | PInt int
  | PFloat rat
  | PStr string
  | PList "pyval list"
  | PDict "(string \<times> pyval) list"

text \<open>Exceptions carry the text that \<^verbatim>\<open>str(e)\<close> yields.\<close>

datatype exn =
    NameError string
  | AttributeError string
  | TypeError string
  | KeyError string
  | IndexError string
  | OSError string
  | OverflowError string
  | PlayerError string

fun exn_str :: "exn \<Rightarrow> string" where
  "exn_str (NameError m) = m"
| "exn_str (AttributeError m) = m"
| "exn_str (TypeError m) = m"
| "exn_str (KeyError m) = m"
| "exn_str (IndexError m) = m"
| "exn_str (OSError m) = m"
| "exn_str (OverflowError m) = m"
| "exn_str (PlayerError m) = m"

type_synonym addr = "string \<times> int"

text \<open>Python truthiness (\<^verbatim>\<open>if x:\<close>, \<^verbatim>\<open>not x\<close>).\<close>

fun truthy :: "pyval \<Rightarrow> bool" where
  "truthy PNone = False"
| "truthy (PBool b) = b"
| "truthy (PInt i) = (i \<noteq> 0)"
| "truthy (PFloat r) = (r \<noteq> 0)"
| "truthy (PStr s) = (s \<noteq> [])"
| "truthy (PList xs) = (xs \<noteq> [])"
| "truthy (PDict kvs) = (kvs \<noteq> [])"

text \<open>\<^verbatim>\<open>isinstance(v, int)\<close>: \<^verbatim>\<open>bool\<close> is a subclass of \<^verbatim>\<open>int\<close> in Python.\<close>

fun isinstance_int :: "pyval \<Rightarrow> bool" where
  "isinstance_int (PInt i) = True"
| "isinstance_int (PBool b) = True"
| "isinstance_int v = False"

text \<open>The integer a Python \<^verbatim>\<open>int\<close> instance compares as (\<^verbatim>\<open>True\<close> is 1, \<^verbatim>\<open>False\<close> is 0).\<close>

fun int_value :: "pyval \<Rightarrow> int" where
  "int_value (PInt i) = i"
| "int_value (PBool b) = (if b then 1 else 0)"
| "int_value v = 0"

text \<open>\<^verbatim>\<open>d.get(key, default)\<close> on a dict.\<close>

definition dict_get :: "(string \<times> pyval) list \<Rightarrow> string \<Rightarrow> pyval \<Rightarrow> pyval" where
  "dict_get d k dflt = (case map_of d k of None \<Rightarrow> dflt | Some v \<Rightarrow> v)"

text \<open>
  The playback tasks that handlers hand to \<^verbatim>\<open>event_loop.create_task\<close>. A loop task
  carries the steps that remain to be played; \<open>PlayCustom\<close> also keeps the whole pattern,
  whose length the completion event reports.
\<close>

datatype task =
    PlayPattern pyval pyval string string
  | PlayWave "pyval list" string string
  | PlayAlternating "pyval list" string string
  | PlayCustom "pyval list" "pyval list" pyval string string

text \<open>
  Everything the server does to its sockets, to the bHaptics player and to the process is
  recorded, in order, in a trace of actions.
\<close>

datatype action =
    SendTo addr pyval
  | CloseServerSocket
  | CloseDiscoverySocket
  | WsClose
  | Destroy
  | PlayerCall string "pyval list"
  | ActivateDiscrete pyval pyval pyval pyval
  | SubmitDot string pyval string pyval pyval
  | LoadAndPlayTactFile
  | CreateTask task
  | ScheduleOsExit

datatype sock = NoSocket | OpenSocket | ClosedSocket

section \<open>Server state and environment\<close>

text \<open>
  The module-level globals of \<^verbatim>\<open>unified_haptics_api.py\<close> (\<open>running\<close>, \<open>cleanup_done\<close>,
  \<open>current_clients\<close>, \<open>active_command_ids\<close>, \<open>event_handlers\<close>), the two sockets of the
  server object, the cleanup flags of the collaborator modules and the player's websocket
  handle. A subscriber set is kept as a list; its order stands for the iteration order of
  the Python set.
\<close>

record cmd_entry =
  entry_client_id :: string
  entry_command :: "string option"
  entry_start_time :: rat

record server_state =
  running :: bool
  cleanup_done :: bool
  current_clients :: "string \<Rightarrow> addr option"
  active_command_ids :: "string \<Rightarrow> cmd_entry option"
  event_handlers :: "string \<Rightarrow> string list option"
  server_socket :: sock
  discovery_socket :: sock
  gloves_cleanup_done :: bool
  array_cleanup_done :: bool
  thread_should_exit :: bool
  player_ws :: bool
  trace :: "action list"

text \<open>
  What the code reads from outside: the clock, fresh UUIDs, whether the operating system
  refuses a datagram, and the behaviour of the bHaptics player and of the module
  \<^verbatim>\<open>haptics_motor_control\<close>, whose source is not part of the repository snapshot.
\<close>

record environment =
  now_iso :: string
  time_now :: rat
  fresh_uuid :: string
  sendto_fails :: "addr \<Rightarrow> pyval \<Rightarrow> bool"
  hmc_activate_discrete :: "pyval \<Rightarrow> pyval \<Rightarrow> pyval \<Rightarrow> pyval \<Rightarrow> exn + bool"
  hmc_cleanup :: "bool \<Rightarrow> action list \<times> bool"
  player_submit_dot :: "string \<Rightarrow> pyval \<Rightarrow> string \<Rightarrow> pyval \<Rightarrow> pyval \<Rightarrow> exn option"
  player_destroy :: "nat \<Rightarrow> exn option"
  load_and_play_tact_file :: "exn option"
  py_format :: "pyval \<Rightarrow> string"
  other_handler :: "string \<Rightarrow> pyval \<Rightarrow> string \<Rightarrow> string \<Rightarrow> server_state
      \<Rightarrow> (exn + pyval option) \<times> (string \<times> pyval list) list"

definition log_action :: "action \<Rightarrow> server_state \<Rightarrow> server_state" where
  "log_action a st = st\<lparr>trace := trace st @ [a]\<rparr>"

text \<open>The datagrams sent so far on the command socket.\<close>

definition sent :: "server_state \<Rightarrow> (addr \<times> pyval) list" where
  "sent st = concat (map (\<lambda>a. case a of SendTo ad m \<Rightarrow> [(ad, m)] | _ \<Rightarrow> []) (trace st))"

text \<open>
  \<^verbatim>\<open>self.server_socket.sendto(bytes, addr)\<close>: raises unless the socket is open and the
  operating system accepts the datagram.
\<close>

definition sendto :: "environment \<Rightarrow> pyval \<Rightarrow> addr \<Rightarrow> server_state \<Rightarrow> exn + server_state" where
  "sendto env msg ad st =
     (case server_socket st of
        NoSocket \<Rightarrow> Inl (AttributeError ''sendto'')
      | ClosedSocket \<Rightarrow> Inl (OSError ''Bad file descriptor'')
      | OpenSocket \<Rightarrow>
          if sendto_fails env ad msg then Inl (OSError ''sendto failed'')
          else Inr (log_action (SendTo ad msg) st))"

section \<open>Responses\<close>

definition response_msg :: "environment \<Rightarrow> string \<Rightarrow> pyval \<Rightarrow> pyval" where
  "response_msg env command_id result =
     PDict [(''type'', PStr ''response''), (''command_id'', PStr command_id),
            (''timestamp'', PStr (now_iso env)), (''result'', result)]"

definition error_msg :: "environment \<Rightarrow> string \<Rightarrow> string \<Rightarrow> pyval" where
  "error_msg env command_id error_message =
     PDict [(''type'', PStr ''error''), (''command_id'', PStr command_id),
            (''error'', PStr error_message), (''timestamp'', PStr (now_iso env))]"

text \<open>
  \<^verbatim>\<open>send_response\<close>: an unknown client ends the call before anything is sent or removed;
  an exception of \<^verbatim>\<open>sendto\<close> is caught and logged, and the removal is skipped.
\<close>

definition send_response ::
  "environment \<Rightarrow> pyval \<Rightarrow> string \<Rightarrow> string \<Rightarrow> server_state \<Rightarrow> server_state" where
  "send_response env result client_id command_id st =
     (case current_clients st client_id of
        None \<Rightarrow> st
      | Some ad \<Rightarrow>
          (case sendto env (response_msg env command_id result) ad st of
             Inl e \<Rightarrow> st
           | Inr st' \<Rightarrow>
               st'\<lparr>active_command_ids := (active_command_ids st')(command_id := None)\<rparr>))"

definition send_error_response ::
  "environment \<Rightarrow> string \<Rightarrow> string \<Rightarrow> string \<Rightarrow> server_state \<Rightarrow> server_state" where
  "send_error_response env error_message client_id command_id st =
     (case current_clients st client_id of
        None \<Rightarrow> st
      | Some ad \<Rightarrow>
          (case sendto env (error_msg env command_id error_message) ad st of
             Inl e \<Rightarrow> st
           | Inr st' \<Rightarrow>
               st'\<lparr>active_command_ids := (active_command_ids st')(command_id := None)\<rparr>))"


section \<open>Helpers for Python expressions\<close>

definition type_name :: "pyval \<Rightarrow> string" where
  "type_name v = (case v of PNone \<Rightarrow> ''NoneType'' | PBool b \<Rightarrow> ''bool'' | PInt i \<Rightarrow> ''int''
     | PFloat r \<Rightarrow> ''float'' | PStr s \<Rightarrow> ''str'' | PList xs \<Rightarrow> ''list'' | PDict d \<Rightarrow> ''dict'')"

definition quoted :: "string \<Rightarrow> string" where
  "quoted s = [CHR 0x27] @ s @ [CHR 0x27]"

text \<open>\<^verbatim>\<open>params.get(...)\<close> on a value that is not a dict raises AttributeError.\<close>

definition no_get :: "pyval \<Rightarrow> exn" where
  "no_get v = AttributeError (quoted (type_name v) @ '' object has no attribute '' @ quoted ''get'')"

function str_nat :: "nat \<Rightarrow> string" where
  "str_nat n = (if n < 10 then [''0123456789'' ! n]
                else str_nat (n div 10) @ [''0123456789'' ! (n mod 10)])"
  by pat_completeness auto
termination
  by (relation "measure id") auto

declare str_nat.simps [simp del]

definition str_int :: "int \<Rightarrow> string" where
  "str_int i = (if i < 0 then ''-'' @ str_nat (nat (- i)) else str_nat (nat i))"

definition lower_char :: "char \<Rightarrow> char" where
  "lower_char c =
     (case map_of (zip ''ABCDEFGHIJKLMNOPQRSTUVWXYZ'' ''abcdefghijklmnopqrstuvwxyz'') c of
        None \<Rightarrow> c | Some l \<Rightarrow> l)"

definition upper_char :: "char \<Rightarrow> char" where
  "upper_char c =
     (case map_of (zip ''abcdefghijklmnopqrstuvwxyz'' ''ABCDEFGHIJKLMNOPQRSTUVWXYZ'') c of
        None \<Rightarrow> c | Some u \<Rightarrow> u)"

definition lower :: "string \<Rightarrow> string" where
  "lower s = map lower_char s"

fun capitalize :: "string \<Rightarrow> string" where
  "capitalize [] = []"
| "capitalize (c # cs) = upper_char c # map lower_char cs"

text \<open>The numeric value of a Python number; comparing anything else with a number raises.\<close>

fun py_num :: "pyval \<Rightarrow> rat option" where
  "py_num (PInt i) = Some (of_int i)"
| "py_num (PBool b) = Some (if b then 1 else 0)"
| "py_num (PFloat r) = Some r"
| "py_num v = None"

text \<open>
  The TypeError of an ordering comparison between values that cannot be ordered, with the
  operator and the type names of the left and the right operand.
\<close>

definition not_supported :: "string \<Rightarrow> string \<Rightarrow> string \<Rightarrow> exn" where
  "not_supported oper left right =
     TypeError (quoted oper @ '' not supported between instances of '' @ quoted left
                @ '' and '' @ quoted right)"

text \<open>
  \<^verbatim>\<open>x / 1000.0\<close>: an \<^verbatim>\<open>int\<close> operand is converted to a float first, which raises
  OverflowError from \<open>2^1024 - 2^970\<close> on, the first magnitude that rounds beyond the
  largest double; an operand that is not a number raises TypeError.
\<close>

definition float_limit :: int where
  "float_limit = 2 ^ 1024 - 2 ^ 970"

definition div_float_error :: "pyval \<Rightarrow> exn option" where
  "div_float_error v =
     (case v of
        PInt i \<Rightarrow>
          if float_limit \<le> \<bar>i\<bar> then Some (OverflowError ''int too large to convert to float'')
          else None
      | PBool b \<Rightarrow> None
      | PFloat r \<Rightarrow> None
      | _ \<Rightarrow> Some (TypeError (''unsupported operand type(s) for /: '' @ quoted (type_name v)
                            @ '' and '' @ quoted ''float'')))"

definition fail_result :: "string \<Rightarrow> pyval" where
  "fail_result msg = PDict [(''success'', PBool False), (''error'', PStr msg)]"

type_synonym handler_result = "(exn + pyval option) \<times> server_state"

section \<open>Discrete motor and glove handlers\<close>

text \<open>
  \<^verbatim>\<open>handle_activate_discrete\<close>. The checks run in the source's order: panel, motor index,
  intensity, duration. \<^verbatim>\<open>hmc_activate_discrete\<close> is imported from
  \<^verbatim>\<open>haptics_motor_control\<close>; its call is recorded in the trace and its outcome is taken
  from the environment.
\<close>

definition handle_activate_discrete ::
  "environment \<Rightarrow> pyval \<Rightarrow> string \<Rightarrow> string \<Rightarrow> server_state \<Rightarrow> handler_result" where
  "handle_activate_discrete env params client_id command_id st =
     (case params of
        PDict d \<Rightarrow>
          (let panel = dict_get d ''panel'' PNone;
               motor_index = dict_get d ''motor_index'' PNone;
               intensity = dict_get d ''intensity'' (PInt 100);
               duration_ms = dict_get d ''duration_ms'' (PInt 500)
           in if panel \<notin> set [PStr ''front'', PStr ''back''] then
                (Inr (Some (fail_result (''Panel must be '' @ quoted ''front'' @ '' or '' @ quoted ''back''))), st)
              else if \<not> isinstance_int motor_index
                      \<or> \<not> (0 \<le> int_value motor_index \<and> int_value motor_index \<le> 19) then
                (Inr (Some (fail_result ''Motor index must be an integer between 0 and 19'')), st)
              else if \<not> isinstance_int intensity
                      \<or> \<not> (0 \<le> int_value intensity \<and> int_value intensity \<le> 100) then
                (Inr (Some (fail_result ''Intensity must be an integer between 0 and 100'')), st)
              else if \<not> isinstance_int duration_ms \<or> int_value duration_ms \<le> 0 then
                (Inr (Some (fail_result ''Duration must be a positive integer'')), st)
              else
                (let st' = log_action (ActivateDiscrete panel motor_index intensity duration_ms) st
                 in case hmc_activate_discrete env panel motor_index intensity duration_ms of
                      Inl e \<Rightarrow> (Inl e, st')
                    | Inr success \<Rightarrow>
                        if success then
                          (Inr (Some (PDict [(''success'', PBool True), (''panel'', panel),
                             (''motor_index'', motor_index), (''intensity'', intensity),
                             (''duration_ms'', duration_ms)])), st')
                        else (Inr (Some (fail_result ''Failed to activate motor'')), st')))
      | _ \<Rightarrow> (Inl (no_get params), st))"

text \<open>
  \<^verbatim>\<open>activate_glove_motor\<close> of \<^verbatim>\<open>haptics_gloves.py\<close>: it validates again, then submits one
  dot to the player. The frame name is the f-string
  \<^verbatim>\<open>glove{glove.capitalize()}Frame_motor_{motor_index}\<close>, recorded by its two interpolated
  parts. Any exception of the player is caught and turned into \<^verbatim>\<open>False\<close>.
\<close>

definition activate_glove_motor ::
  "environment \<Rightarrow> string \<Rightarrow> pyval \<Rightarrow> pyval \<Rightarrow> pyval \<Rightarrow> server_state \<Rightarrow> (exn + bool) \<times> server_state" where
  "activate_glove_motor env glove motor_index intensity duration_ms st =
     (if lower glove \<notin> set [''left'', ''right''] then (Inr False, st)
      else
        (case py_num motor_index of
           None \<Rightarrow> (Inl (not_supported ''<='' ''int'' (type_name motor_index)), st)
         | Some m \<Rightarrow>
             if \<not> (0 \<le> m \<and> m \<le> 5) then (Inr False, st)
             else
               (case py_num intensity of
                  None \<Rightarrow> (Inl (not_supported ''<='' ''int'' (type_name intensity)), st)
                | Some i \<Rightarrow>
                    if \<not> (0 \<le> i \<and> i \<le> 100) then (Inr False, st)
                    else
                      (case py_num duration_ms of
                         None \<Rightarrow> (Inl (not_supported ''<='' (type_name duration_ms) ''int''), st)
                       | Some t \<Rightarrow>
                           if t \<le> 0 then (Inr False, st)
                           else
                             (let glove_position =
                                    (if lower glove = ''left'' then ''GloveL'' else ''GloveR'');
                                  dots = PList [PDict [(''index'', motor_index),
                                                       (''intensity'', intensity)]];
                                  st' = log_action
                                          (SubmitDot (capitalize glove) motor_index glove_position
                                             dots duration_ms) st
                              in (case player_submit_dot env (capitalize glove) motor_index
                                         glove_position dots duration_ms of
                                    None \<Rightarrow> (Inr True, st')
                                  | Some e \<Rightarrow> (Inr False, st')))))))"

definition handle_activate_glove_motor ::
  "environment \<Rightarrow> pyval \<Rightarrow> string \<Rightarrow> string \<Rightarrow> server_state \<Rightarrow> handler_result" where
  "handle_activate_glove_motor env params client_id command_id st =
     (case params of
        PDict d \<Rightarrow>
          (let glove = dict_get d ''glove'' PNone;
               motor_index = dict_get d ''motor_index'' PNone;
               intensity = dict_get d ''intensity'' (PInt 100);
               duration_ms = dict_get d ''duration_ms'' (PInt 500)
           in if glove \<notin> set [PStr ''left'', PStr ''right''] then
                (Inr (Some (fail_result (''Glove must be '' @ quoted ''left'' @ '' or '' @ quoted ''right''))), st)
              else if \<not> isinstance_int motor_index
                      \<or> \<not> (0 \<le> int_value motor_index \<and> int_value motor_index \<le> 5) then
                (Inr (Some (fail_result ''Motor index must be an integer between 0 and 5'')), st)
              else if \<not> isinstance_int intensity
                      \<or> \<not> (0 \<le> int_value intensity \<and> int_value intensity \<le> 100) then
                (Inr (Some (fail_result ''Intensity must be an integer between 0 and 100'')), st)
              else if \<not> isinstance_int duration_ms \<or> int_value duration_ms \<le> 0 then
                (Inr (Some (fail_result ''Duration must be a positive integer'')), st)
              else
                (case activate_glove_motor env (case glove of PStr g \<Rightarrow> g | _ \<Rightarrow> [])
                        motor_index intensity duration_ms st of
                   (Inl e, st') \<Rightarrow> (Inl e, st')
                 | (Inr success, st') \<Rightarrow>
                     if success then
                       (Inr (Some (PDict [(''success'', PBool True), (''glove'', glove),
                          (''motor_index'', motor_index), (''intensity'', intensity),
                          (''duration_ms'', duration_ms)])), st')
                     else (Inr (Some (fail_result ''Failed to activate glove motor'')), st')))
      | _ \<Rightarrow> (Inl (no_get params), st))"

section \<open>System handlers\<close>

definition handle_ping ::
  "environment \<Rightarrow> pyval \<Rightarrow> string \<Rightarrow> string \<Rightarrow> server_state \<Rightarrow> handler_result" where
  "handle_ping env params client_id command_id st =
     (case params of
        PDict d \<Rightarrow>
          (Inr (Some (PDict [(''success'', PBool True), (''message'', PStr ''Pong''),
             (''timestamp'', PStr (now_iso env)), (''echo'', dict_get d ''message'' (PStr []))])), st)
      | _ \<Rightarrow> (Inl (no_get params), st))"

text \<open>
  \<^verbatim>\<open>handle_register_event_callback\<close> as it stands in the source (lines 643 to 678): after
  the test of \<^verbatim>\<open>event_type\<close> the body continues with the tail of the funnelling handler. Its
  first statement evaluates \<^verbatim>\<open>isinstance(duration_ms, int)\<close>; the name \<^verbatim>\<open>duration_ms\<close> is
  neither a local of this function nor a module global, so the evaluation raises NameError
  and the statements after it are never reached. Nothing in the body touches
  \<^verbatim>\<open>event_handlers\<close>.
\<close>

definition handle_register_event_callback ::
  "environment \<Rightarrow> pyval \<Rightarrow> string \<Rightarrow> string \<Rightarrow> server_state \<Rightarrow> handler_result" where
  "handle_register_event_callback env params client_id command_id st =
     (case params of
        PDict d \<Rightarrow>
          (let event_type = dict_get d ''event_type'' PNone
           in if \<not> truthy event_type then
                (Inr (Some (fail_result ''Intensity must be an integer between 0 and 100'')), st)
              else
                (Inl (NameError (''name '' @ quoted ''duration_ms'' @ '' is not defined'')), st))
      | _ \<Rightarrow> (Inl (no_get params), st))"

text \<open>
  \<^verbatim>\<open>handle_unregister_event_callback\<close>. A non-string \<^verbatim>\<open>event_type\<close> that is truthy is looked
  up as a key of \<^verbatim>\<open>event_handlers\<close>; the keys are strings, so only a string can be found
  (a list or dict is unhashable and raises TypeError).
\<close>

definition handle_unregister_event_callback ::
  "environment \<Rightarrow> pyval \<Rightarrow> string \<Rightarrow> string \<Rightarrow> server_state \<Rightarrow> handler_result" where
  "handle_unregister_event_callback env params client_id command_id st =
     (case params of
        PDict d \<Rightarrow>
          (let event_type = dict_get d ''event_type'' PNone
           in if \<not> truthy event_type then
                (Inr (Some (PDict [(''success'', PBool True),
                                   (''message'', PStr ''Unregistered from all events'')])),
                 st\<lparr>event_handlers := (\<lambda>k. map_option (removeAll client_id) (event_handlers st k))\<rparr>)
              else
                (case event_type of
                   PStr et \<Rightarrow>
                     (case event_handlers st et of
                        Some subs \<Rightarrow>
                          if client_id \<in> set subs then
                            (Inr (Some (PDict [(''success'', PBool True), (''event_type'', event_type),
                               (''message'', PStr (''Unregistered from '' @ et @ '' events''))])),
                             st\<lparr>event_handlers := (event_handlers st)(et \<mapsto> removeAll client_id subs)\<rparr>)
                          else (Inr (Some (fail_result (''Not registered for '' @ et @ '' events''))), st)
                      | None \<Rightarrow> (Inr (Some (fail_result (''Not registered for '' @ et @ '' events''))), st))
                 | PList xs \<Rightarrow> (Inl (TypeError (''unhashable type: '' @ quoted ''list'')), st)
                 | PDict kvs \<Rightarrow> (Inl (TypeError (''unhashable type: '' @ quoted ''dict'')), st)
                 | _ \<Rightarrow> (Inr (Some (fail_result
                            (''Not registered for '' @ py_format env event_type @ '' events''))), st)))
      | _ \<Rightarrow> (Inl (no_get params), st))"

text \<open>
  \<^verbatim>\<open>initiate_shutdown\<close>: a truthy \<^verbatim>\<open>force\<close> schedules \<^verbatim>\<open>os._exit(0)\<close> on the event loop and
  leaves the run flag alone; otherwise the run flag is cleared.
\<close>

definition initiate_shutdown :: "pyval \<Rightarrow> server_state \<Rightarrow> server_state" where
  "initiate_shutdown force st =
     (if truthy force then log_action ScheduleOsExit st else st\<lparr>running := False\<rparr>)"

definition handle_shutdown ::
  "environment \<Rightarrow> pyval \<Rightarrow> string \<Rightarrow> string \<Rightarrow> server_state \<Rightarrow> handler_result" where
  "handle_shutdown env params client_id command_id st =
     (case params of
        PDict d \<Rightarrow>
          (let force = dict_get d ''force'' (PBool False);
               st1 = send_response env
                       (PDict [(''success'', PBool True), (''message'', PStr ''Server is shutting down''),
                               (''force'', force)]) client_id command_id st
           in (Inr None, initiate_shutdown force st1))
      | _ \<Rightarrow> (Inl (no_get params), st))"

section \<open>Events\<close>

definition event_msg :: "environment \<Rightarrow> string \<Rightarrow> pyval \<Rightarrow> pyval" where
  "event_msg env event_type data =
     PDict [(''type'', PStr ''event''), (''event_type'', PStr event_type),
            (''timestamp'', PStr (now_iso env)), (''data'', data)]"

text \<open>
  \<^verbatim>\<open>_send_event\<close>. With a truthy target the recipients are the target alone, and only if
  the target is subscribed to the event type; with an empty target they are all the
  subscribers. A recipient without a registry entry is skipped, and a failing send is
  caught and logged.
\<close>

definition send_event_to ::
  "environment \<Rightarrow> string \<Rightarrow> pyval \<Rightarrow> server_state \<Rightarrow> string \<Rightarrow> server_state" where
  "send_event_to env event_type data st client_id =
     (case current_clients st client_id of
        None \<Rightarrow> st
      | Some ad \<Rightarrow>
          (case sendto env (event_msg env event_type data) ad st of
             Inl e \<Rightarrow> st
           | Inr st' \<Rightarrow> st'))"

definition event_recipients :: "server_state \<Rightarrow> string \<Rightarrow> string \<Rightarrow> string list" where
  "event_recipients st event_type target_client_id =
     (let subs = (case event_handlers st event_type of None \<Rightarrow> [] | Some s \<Rightarrow> s)
      in if target_client_id = [] then subs
         else if target_client_id \<in> set subs then [target_client_id] else [])"

definition send_event ::
  "environment \<Rightarrow> string \<Rightarrow> pyval \<Rightarrow> string \<Rightarrow> server_state \<Rightarrow> server_state" where
  "send_event env event_type data target_client_id st =
     foldl (send_event_to env event_type data) st (event_recipients st event_type target_client_id)"

section \<open>Motor arrays and playback tasks\<close>

definition row4 :: "int \<Rightarrow> int \<Rightarrow> int \<Rightarrow> int \<Rightarrow> pyval" where
  "row4 a b c d = PList [PInt a, PInt b, PInt c, PInt d]"

definition pattern_step :: "pyval list \<Rightarrow> pyval list \<Rightarrow> pyval" where
  "pattern_step front back = PDict [(''front'', PList front), (''back'', PList back)]"

definition WAVE_PATTERN :: "pyval list" where
  "WAVE_PATTERN =
     (let z = row4 0 0 0 0; f = row4 100 100 100 100; h = row4 50 50 50 50
      in [pattern_step [f, z, z, z, z] [h, z, z, z, z],
          pattern_step [z, f, z, z, z] [z, h, z, z, z],
          pattern_step [z, z, f, z, z] [z, z, h, z, z],
          pattern_step [z, z, z, f, z] [z, z, z, h, z],
          pattern_step [z, z, z, z, f] [z, z, z, z, h]])"

definition ALTERNATING_PATTERN :: "pyval list" where
  "ALTERNATING_PATTERN =
     (let z = row4 0 0 0 0; f = row4 100 100 100 100; c = row4 100 0 100 0
      in [pattern_step [f, f, f, f, f] [z, z, z, z, z],
          pattern_step [z, z, z, z, z] [f, f, f, f, f],
          pattern_step [c, c, c, c, c] [z, z, z, z, z],
          pattern_step [z, z, z, z, z] [c, c, c, c, c]])"

text \<open>Subscripting with a string key and with a non-negative index.\<close>

fun subscript_key :: "pyval \<Rightarrow> string \<Rightarrow> exn + pyval" where
  "subscript_key (PDict d) k =
     (case map_of d k of None \<Rightarrow> Inl (KeyError (quoted k)) | Some v \<Rightarrow> Inr v)"
| "subscript_key (PList xs) k = Inl (TypeError ''list indices must be integers or slices, not str'')"
| "subscript_key (PStr s) k =
     Inl (TypeError (''string indices must be integers, not '' @ quoted ''str''))"
| "subscript_key v k = Inl (TypeError (quoted (type_name v) @ '' object is not subscriptable''))"

fun subscript_idx :: "pyval \<Rightarrow> nat \<Rightarrow> exn + pyval" where
  "subscript_idx (PList xs) i =
     (if i < length xs then Inr (xs ! i) else Inl (IndexError ''list index out of range''))"
| "subscript_idx (PStr s) i =
     (if i < length s then Inr (PStr [s ! i]) else Inl (IndexError ''string index out of range''))"
| "subscript_idx (PDict d) i = Inl (KeyError (str_nat i))"
| "subscript_idx v i = Inl (TypeError (quoted (type_name v) @ '' object is not subscriptable''))"

text \<open>\<^verbatim>\<open>intensity > 0\<close>.\<close>

definition gt_zero :: "pyval \<Rightarrow> exn + bool" where
  "gt_zero v =
     (case py_num v of
        None \<Rightarrow> Inl (not_supported ''>'' (type_name v) ''int'')
      | Some r \<Rightarrow> Inr (0 < r))"

text \<open>
  One cell of \<^verbatim>\<open>activate_motor_array\<close>: read \<^verbatim>\<open>pattern_step[panel][row][col]\<close> and, when the
  intensity is positive, call \<^verbatim>\<open>activate_discrete\<close> of \<^verbatim>\<open>haptics_motor_control\<close> (its result
  is discarded, an exception propagates).
\<close>

definition motor_cell ::
  "environment \<Rightarrow> string \<Rightarrow> pyval \<Rightarrow> pyval \<Rightarrow> server_state \<Rightarrow> nat \<times> nat
     \<Rightarrow> exn option \<times> server_state" where
  "motor_cell env panel step duration_ms st rc =
     (case subscript_key step panel of
        Inl e \<Rightarrow> (Some e, st)
      | Inr p \<Rightarrow>
          (case subscript_idx p (fst rc) of
             Inl e \<Rightarrow> (Some e, st)
           | Inr r \<Rightarrow>
               (case subscript_idx r (snd rc) of
                  Inl e \<Rightarrow> (Some e, st)
                | Inr intensity \<Rightarrow>
                    (case gt_zero intensity of
                       Inl e \<Rightarrow> (Some e, st)
                     | Inr pos \<Rightarrow>
                         if pos then
                           (let motor_idx = PInt (int (fst rc * 4 + snd rc));
                                st' = log_action
                                        (ActivateDiscrete (PStr panel) motor_idx intensity duration_ms) st
                            in case hmc_activate_discrete env (PStr panel) motor_idx intensity duration_ms of
                                 Inl e \<Rightarrow> (Some e, st')
                               | Inr ok \<Rightarrow> (None, st'))
                         else (None, st)))))"

fun motor_cells ::
  "environment \<Rightarrow> string \<Rightarrow> pyval \<Rightarrow> pyval \<Rightarrow> (nat \<times> nat) list \<Rightarrow> server_state
     \<Rightarrow> exn option \<times> server_state" where
  "motor_cells env panel step duration_ms [] st = (None, st)"
| "motor_cells env panel step duration_ms (rc # rcs) st =
     (case motor_cell env panel step duration_ms st rc of
        (Some e, st') \<Rightarrow> (Some e, st')
      | (None, st') \<Rightarrow> motor_cells env panel step duration_ms rcs st')"

definition grid_cells :: "(nat \<times> nat) list" where
  "grid_cells = concat (map (\<lambda>row. map (\<lambda>col. (row, col)) [0..<4]) [0..<5])"

text \<open>
  \<^verbatim>\<open>activate_motor_array\<close>: the front panel, then the back panel, then
  \<^verbatim>\<open>step_duration = duration_ms / 1000.0 + 0.1\<close>, whose division may raise. The wait loop
  that follows only sleeps until that finite duration has passed or the module's own run
  flag is cleared; it changes nothing that is modelled here.
\<close>

definition activate_motor_array ::
  "environment \<Rightarrow> pyval \<Rightarrow> pyval \<Rightarrow> server_state \<Rightarrow> exn option \<times> server_state" where
  "activate_motor_array env step duration_ms st =
     (case motor_cells env ''front'' step duration_ms grid_cells st of
        (Some e, st') \<Rightarrow> (Some e, st')
      | (None, st') \<Rightarrow>
          (case motor_cells env ''back'' step duration_ms grid_cells st' of
             (Some e, st'') \<Rightarrow> (Some e, st'')
           | (None, st'') \<Rightarrow> (div_float_error duration_ms, st'')))"

text \<open>
  The playback coroutines, one resumption at a time. \<open>task_step\<close> runs a task from where
  it was suspended to its next \<^verbatim>\<open>await asyncio.sleep\<close> (the result holds the suspended
  task) or to its end (the result holds no task). Between two resumptions other coroutines
  run, so the state passed to the next resumption may differ from the one returned here.

  The loop body of the three array players is the same: leave the loop by \<^verbatim>\<open>break\<close> when
  the run flag is clear, otherwise play the step and sleep. The statement after the loop
  sends \<^verbatim>\<open>pattern_complete\<close>; it is reached when the steps are exhausted and also after the
  \<^verbatim>\<open>break\<close>. An exception of the step, or of the evaluation of the argument of
  \<^verbatim>\<open>asyncio.sleep\<close>, sends \<^verbatim>\<open>pattern_error\<close>. The wave and alternating players sleep for
  a constant; the custom player sleeps for \<^verbatim>\<open>duration_ms / 1000.0 + 0.1\<close>.
\<close>

definition play_step ::
  "environment \<Rightarrow> pyval \<Rightarrow> pyval \<Rightarrow> exn option \<Rightarrow> server_state \<Rightarrow> exn option \<times> server_state" where
  "play_step env p duration_ms sleep_error st =
     (case activate_motor_array env p duration_ms st of
        (Some e, st') \<Rightarrow> (Some e, st')
      | (None, st') \<Rightarrow> (sleep_error, st'))"

definition array_task_step ::
  "environment \<Rightarrow> (string \<times> pyval) list \<Rightarrow> (string \<times> pyval) list \<Rightarrow> pyval \<Rightarrow> exn option
     \<Rightarrow> string \<Rightarrow> (pyval list \<Rightarrow> task) \<Rightarrow> pyval list \<Rightarrow> server_state
     \<Rightarrow> server_state \<times> task option" where
  "array_task_step env done_data err_data duration_ms sleep_error client_id resume steps st =
     (case steps of
        [] \<Rightarrow> (send_event env ''pattern_complete'' (PDict done_data) client_id st, None)
      | p # ps \<Rightarrow>
          if \<not> running st then
            (send_event env ''pattern_complete'' (PDict done_data) client_id st, None)
          else
            (case play_step env p duration_ms sleep_error st of
               (Some e, st') \<Rightarrow>
                 (send_event env ''pattern_error''
                    (PDict (err_data @ [(''error'', PStr (exn_str e))])) client_id st', None)
             | (None, st') \<Rightarrow> (st', Some (resume ps))))"

fun task_step :: "environment \<Rightarrow> task \<Rightarrow> server_state \<Rightarrow> server_state \<times> task option" where
  "task_step env (PlayPattern pattern_file key client_id command_id) st =
     (let st' = log_action LoadAndPlayTactFile st;
          data = [(''pattern_file'', pattern_file), (''key'', key), (''command_id'', PStr command_id)]
      in case load_and_play_tact_file env of
           None \<Rightarrow> (send_event env ''pattern_complete'' (PDict data) client_id st', None)
         | Some e \<Rightarrow>
             (send_event env ''pattern_error''
                (PDict (data @ [(''error'', PStr (exn_str e))])) client_id st', None))"
| "task_step env (PlayWave steps client_id command_id) st =
     (let data = [(''pattern_type'', PStr ''wave''), (''command_id'', PStr command_id)]
      in array_task_step env data data (PInt 500) None client_id
           (\<lambda>ps. PlayWave ps client_id command_id) steps st)"
| "task_step env (PlayAlternating steps client_id command_id) st =
     (let data = [(''pattern_type'', PStr ''alternating''), (''command_id'', PStr command_id)]
      in array_task_step env data data (PInt 1000) None client_id
           (\<lambda>ps. PlayAlternating ps client_id command_id) steps st)"
| "task_step env (PlayCustom pattern steps duration_ms client_id command_id) st =
     (let data = [(''pattern_type'', PStr ''custom''), (''command_id'', PStr command_id)]
      in array_task_step env (data @ [(''steps'', PInt (int (length pattern)))]) data duration_ms
           (div_float_error duration_ms) client_id
           (\<lambda>ps. PlayCustom pattern ps duration_ms client_id command_id) steps st)"

text \<open>The steps a task still has to play; it decreases at every suspension.\<close>

fun steps_left :: "task \<Rightarrow> nat" where
  "steps_left (PlayPattern pattern_file key client_id command_id) = 0"
| "steps_left (PlayWave steps client_id command_id) = length steps"
| "steps_left (PlayAlternating steps client_id command_id) = length steps"
| "steps_left (PlayCustom pattern steps duration_ms client_id command_id) = length steps"

fun task_client :: "task \<Rightarrow> string" where
  "task_client (PlayPattern pattern_file key client_id command_id) = client_id"
| "task_client (PlayWave steps client_id command_id) = client_id"
| "task_client (PlayAlternating steps client_id command_id) = client_id"
| "task_client (PlayCustom pattern steps duration_ms client_id command_id) = client_id"

text \<open>
  A whole run of a task: resumptions alternate with the other coroutines of the event
  loop, whose combined effect between two resumptions is the state transformer
  \<open>others\<close> (the identity when the task runs alone). The number is not part of the
  code: it bounds the resumptions of the run, and a task left over means it ran out.
\<close>

fun run_task ::
  "environment \<Rightarrow> (server_state \<Rightarrow> server_state) \<Rightarrow> nat \<Rightarrow> task \<Rightarrow> server_state
     \<Rightarrow> server_state \<times> task option" where
  "run_task env others 0 t st = (st, Some t)"
| "run_task env others (Suc n) t st =
     (case task_step env t st of
        (st', None) \<Rightarrow> (st', None)
      | (st', Some t') \<Rightarrow> run_task env others n t' (others st'))"

section \<open>Pattern handlers\<close>

definition handle_play_pattern ::
  "environment \<Rightarrow> pyval \<Rightarrow> string \<Rightarrow> string \<Rightarrow> server_state \<Rightarrow> handler_result" where
  "handle_play_pattern env params client_id command_id st =
     (case params of
        PDict d \<Rightarrow>
          (let pattern_file = dict_get d ''pattern_file'' PNone;
               key = dict_get d ''key'' PNone
           in if \<not> truthy pattern_file then
                (Inr (Some (fail_result ''Missing pattern_file parameter'')), st)
              else
                (Inr (Some (PDict [(''success'', PBool True), (''message'', PStr ''Pattern playback started''),
                   (''pattern_file'', pattern_file), (''key'', key)])),
                 log_action (CreateTask (PlayPattern pattern_file key client_id command_id)) st))
      | _ \<Rightarrow> (Inl (no_get params), st))"

definition handle_play_wave_pattern ::
  "environment \<Rightarrow> pyval \<Rightarrow> string \<Rightarrow> string \<Rightarrow> server_state \<Rightarrow> handler_result" where
  "handle_play_wave_pattern env params client_id command_id st =
     (Inr (Some (PDict [(''success'', PBool True), (''message'', PStr ''Wave pattern playback started''),
        (''pattern_type'', PStr ''wave'')])),
      log_action (CreateTask (PlayWave WAVE_PATTERN client_id command_id)) st)"

definition handle_play_alternating_pattern ::
  "environment \<Rightarrow> pyval \<Rightarrow> string \<Rightarrow> string \<Rightarrow> server_state \<Rightarrow> handler_result" where
  "handle_play_alternating_pattern env params client_id command_id st =
     (Inr (Some (PDict [(''success'', PBool True),
        (''message'', PStr ''Alternating pattern playback started''),
        (''pattern_type'', PStr ''alternating'')])),
      log_action (CreateTask (PlayAlternating ALTERNATING_PATTERN client_id command_id)) st)"

definition handle_play_custom_pattern ::
  "environment \<Rightarrow> pyval \<Rightarrow> string \<Rightarrow> string \<Rightarrow> server_state \<Rightarrow> handler_result" where
  "handle_play_custom_pattern env params client_id command_id st =
     (case params of
        PDict d \<Rightarrow>
          (let pattern = dict_get d ''pattern'' PNone;
               duration_ms = dict_get d ''duration_ms'' (PInt 500)
           in case pattern of
                PList steps \<Rightarrow>
                  if steps = [] then
                    (Inr (Some (fail_result ''Missing or invalid pattern parameter'')), st)
                  else if \<not> isinstance_int duration_ms \<or> int_value duration_ms \<le> 0 then
                    (Inr (Some (fail_result ''Duration must be a positive integer'')), st)
                  else
                    (Inr (Some (PDict [(''success'', PBool True),
                       (''message'', PStr ''Custom pattern playback started''),
                       (''steps'', PInt (int (length steps))), (''duration_ms'', duration_ms)])),
                     log_action (CreateTask (PlayCustom steps steps duration_ms client_id command_id)) st)
              | _ \<Rightarrow> (Inr (Some (fail_result ''Missing or invalid pattern parameter'')), st))
      | _ \<Rightarrow> (Inl (no_get params), st))"


section \<open>Cleanup and shutdown\<close>

definition destroy_count :: "action list \<Rightarrow> nat" where
  "destroy_count tr = length (filter (\<lambda>a. a = Destroy) tr)"

text \<open>
  \<^verbatim>\<open>player.destroy()\<close>: the call is recorded; whether it raises is the environment's
  answer for the number of earlier calls.
\<close>

definition call_destroy :: "environment \<Rightarrow> server_state \<Rightarrow> exn option \<times> server_state" where
  "call_destroy env st = (player_destroy env (destroy_count (trace st)), log_action Destroy st)"

text \<open>
  The websocket handle is set to \<^verbatim>\<open>None\<close> before it is closed; an exception of the close is
  ignored.
\<close>

definition close_ws :: "server_state \<Rightarrow> server_state" where
  "close_ws st = (if player_ws st then log_action WsClose (st\<lparr>player_ws := False\<rparr>) else st)"

text \<open>\<^verbatim>\<open>cleanup\<close> of \<^verbatim>\<open>haptics_gloves.py\<close>, guarded by that module's own \<^verbatim>\<open>cleanup_done\<close>.\<close>

definition gloves_cleanup :: "environment \<Rightarrow> server_state \<Rightarrow> server_state" where
  "gloves_cleanup env st =
     (if gloves_cleanup_done st then st
      else case call_destroy env (close_ws st) of
             (None, st') \<Rightarrow> st'\<lparr>gloves_cleanup_done := True\<rparr>
           | (Some e, st') \<Rightarrow> st')"

text \<open>
  \<^verbatim>\<open>cleanup\<close> of \<^verbatim>\<open>haptics_pattern_player.py\<close>: it has no guard. The receiver thread it may
  wait for is outside this model.
\<close>

definition pattern_player_cleanup :: "environment \<Rightarrow> server_state \<Rightarrow> server_state" where
  "pattern_player_cleanup env st = snd (call_destroy env (st\<lparr>thread_should_exit := True\<rparr>))"

text \<open>\<^verbatim>\<open>cleanup\<close> of \<^verbatim>\<open>array_example.py\<close>, guarded by that module's own \<^verbatim>\<open>cleanup_done\<close>.\<close>

definition array_example_cleanup :: "environment \<Rightarrow> server_state \<Rightarrow> server_state" where
  "array_example_cleanup env st =
     (if array_cleanup_done st then st
      else case call_destroy env (close_ws st) of
             (None, st') \<Rightarrow> st'\<lparr>array_cleanup_done := True\<rparr>
           | (Some e, st') \<Rightarrow> st')"

text \<open>
  \<^verbatim>\<open>cleanup\<close> of \<^verbatim>\<open>haptics_motor_control\<close> is not in the snapshot: the actions it performs and
  what it leaves of the websocket handle come from the environment. All four modules hold
  the same \<^verbatim>\<open>bhaptics\<close> player module, so they share its websocket handle.
\<close>

definition hmc_cleanup_call :: "environment \<Rightarrow> server_state \<Rightarrow> server_state" where
  "hmc_cleanup_call env st =
     (case hmc_cleanup env (player_ws st) of
        (acts, ws) \<Rightarrow> st\<lparr>player_ws := ws, trace := trace st @ acts\<rparr>)"

definition cleanup_haptics :: "environment \<Rightarrow> server_state \<Rightarrow> server_state" where
  "cleanup_haptics env st =
     array_example_cleanup env (pattern_player_cleanup env (gloves_cleanup env (hmc_cleanup_call env st)))"

definition close_server_socket :: "server_state \<Rightarrow> server_state" where
  "close_server_socket st =
     (if server_socket st = NoSocket then st
      else log_action CloseServerSocket (st\<lparr>server_socket := ClosedSocket\<rparr>))"

definition close_discovery_socket :: "server_state \<Rightarrow> server_state" where
  "close_discovery_socket st =
     (if discovery_socket st = NoSocket then st
      else log_action CloseDiscoverySocket (st\<lparr>discovery_socket := ClosedSocket\<rparr>))"

text \<open>\<^verbatim>\<open>HapticsServer.stop\<close>.\<close>

definition stop :: "environment \<Rightarrow> server_state \<Rightarrow> server_state" where
  "stop env st =
     (if cleanup_done st then st
      else (cleanup_haptics env (close_discovery_socket (close_server_socket st)))
             \<lparr>cleanup_done := True\<rparr>)"

section \<open>The dispatcher\<close>

text \<open>
  A datagram either fails to decode, decodes to something that is not a JSON object, or
  decodes to an object. Of an object the dispatcher reads four keys; the identifiers are
  strings when present.
\<close>

record envelope =
  env_command :: "string option"
  env_params :: "pyval option"
  env_command_id :: "string option"
  env_client_id :: "string option"

datatype decoded = BadJSON string | NotObject pyval | Envelope envelope

type_synonym handler = "pyval \<Rightarrow> string \<Rightarrow> string \<Rightarrow> server_state \<Rightarrow> handler_result"

text \<open>
  The handlers that only query or drive the bHaptics player and read the registries
  (\<^verbatim>\<open>get_status\<close>, \<^verbatim>\<open>get_device_status\<close>, \<^verbatim>\<open>activate_funnelling\<close>, \<^verbatim>\<open>stop_pattern\<close>,
  \<^verbatim>\<open>is_pattern_playing\<close>, \<^verbatim>\<open>submit_dot\<close>, \<^verbatim>\<open>submit_path\<close>, \<^verbatim>\<open>register_tact_file\<close>,
  \<^verbatim>\<open>submit_registered\<close>) are represented by what they can do: return or raise, and call the
  player.
\<close>

definition handle_other :: "environment \<Rightarrow> string \<Rightarrow> handler" where
  "handle_other env name params client_id command_id st =
     (case other_handler env name params client_id command_id st of
        (res, calls) \<Rightarrow> (res, st\<lparr>trace := trace st @ map (\<lambda>(f, args). PlayerCall f args) calls\<rparr>))"

definition command_handlers :: "environment \<Rightarrow> string \<Rightarrow> handler option" where
  "command_handlers env =
     map_of
       [(''ping'', handle_ping env),
        (''get_status'', handle_other env ''get_status''),
        (''get_device_status'', handle_other env ''get_device_status''),
        (''register_event_callback'', handle_register_event_callback env),
        (''unregister_event_callback'', handle_unregister_event_callback env),
        (''shutdown'', handle_shutdown env),
        (''activate_discrete'', handle_activate_discrete env),
        (''activate_funnelling'', handle_other env ''activate_funnelling''),
        (''activate_glove_motor'', handle_activate_glove_motor env),
        (''play_pattern'', handle_play_pattern env),
        (''stop_pattern'', handle_other env ''stop_pattern''),
        (''is_pattern_playing'', handle_other env ''is_pattern_playing''),
        (''play_wave_pattern'', handle_play_wave_pattern env),
        (''play_alternating_pattern'', handle_play_alternating_pattern env),
        (''play_custom_pattern'', handle_play_custom_pattern env),
        (''submit_dot'', handle_other env ''submit_dot''),
        (''submit_path'', handle_other env ''submit_path''),
        (''register_tact_file'', handle_other env ''register_tact_file''),
        (''submit_registered'', handle_other env ''submit_registered'')]"

definition default_client_id :: "addr \<Rightarrow> string" where
  "default_client_id ad = fst ad @ '':'' @ str_int (snd ad)"

text \<open>
  \<^verbatim>\<open>command_data.get('command_id', str(uuid.uuid4()))\<close> and
  \<^verbatim>\<open>command_data.get('client_id', f"{addr[0]}:{addr[1]}")\<close>.
\<close>

definition envelope_command_id :: "environment \<Rightarrow> envelope \<Rightarrow> string" where
  "envelope_command_id env cd = (case env_command_id cd of None \<Rightarrow> fresh_uuid env | Some c \<Rightarrow> c)"

definition envelope_client_id :: "addr \<Rightarrow> envelope \<Rightarrow> string" where
  "envelope_client_id ad cd = (case env_client_id cd of None \<Rightarrow> default_client_id ad | Some c \<Rightarrow> c)"

text \<open>The client is entered in the registry only when its identifier is not yet a key.\<close>

definition register_client :: "string \<Rightarrow> addr \<Rightarrow> server_state \<Rightarrow> server_state" where
  "register_client client_id ad st =
     (if current_clients st client_id = None
      then st\<lparr>current_clients := (current_clients st)(client_id \<mapsto> ad)\<rparr>
      else st)"

definition track_command ::
  "environment \<Rightarrow> string \<Rightarrow> string \<Rightarrow> string option \<Rightarrow> server_state \<Rightarrow> server_state" where
  "track_command env command_id client_id command st =
     st\<lparr>active_command_ids := (active_command_ids st)(command_id \<mapsto>
          \<lparr>entry_client_id = client_id, entry_command = command, entry_start_time = time_now env\<rparr>)\<rparr>"

text \<open>
  \<^verbatim>\<open>process_command\<close>. It contains no suspension point (every coroutine it awaits runs to
  its end without yielding), so it is one atomic step of the event loop. The three
  exception clauses are the cases of the result: a decoding error is answered to the
  source address; any other exception is answered with an error response when the
  datagram itself carried a truthy \<^verbatim>\<open>command_id\<close>.
\<close>

definition process_command :: "environment \<Rightarrow> decoded \<Rightarrow> addr \<Rightarrow> server_state \<Rightarrow> server_state" where
  "process_command env data ad st =
     (case data of
        BadJSON details \<Rightarrow>
          (case sendto env (PDict [(''type'', PStr ''error''), (''error'', PStr ''Invalid JSON format''),
                                   (''details'', PStr details), (''timestamp'', PStr (now_iso env))]) ad st of
             Inl e \<Rightarrow> st
           | Inr st' \<Rightarrow> st')
      | NotObject v \<Rightarrow> st
      | Envelope cd \<Rightarrow>
          (let command = env_command cd;
               params = (case env_params cd of None \<Rightarrow> PDict [] | Some p \<Rightarrow> p);
               command_id = envelope_command_id env cd;
               client_id = envelope_client_id ad cd;
               st1 = register_client client_id ad st;
               st2 = track_command env command_id client_id command st1
           in case (case command of None \<Rightarrow> None | Some c \<Rightarrow> command_handlers env c) of
                Some handler \<Rightarrow>
                  (case handler params client_id command_id st2 of
                     (Inr None, st3) \<Rightarrow> st3
                   | (Inr (Some result), st3) \<Rightarrow> send_response env result client_id command_id st3
                   | (Inl e, st3) \<Rightarrow>
                       (case env_command_id cd of
                          None \<Rightarrow> st3
                        | Some c \<Rightarrow>
                            if c = [] then st3
                            else send_error_response env (''Error processing command: '' @ exn_str e)
                                   client_id c st3))
              | None \<Rightarrow>
                  send_error_response env
                    (''Unknown command: '' @ (case command of None \<Rightarrow> ''None'' | Some c \<Rightarrow> c))
                    client_id command_id st2))"


section \<open>Runs of the dispatcher\<close>

text \<open>
  A run of the dispatcher over a sequence of decoded command objects, each with the
  environment and the source address it arrives with.
\<close>

fun dispatch_all :: "(environment \<times> envelope \<times> addr) list \<Rightarrow> server_state \<Rightarrow> server_state" where
  "dispatch_all [] st = st"
| "dispatch_all ((env, cd, ad) # cs) st = dispatch_all cs (process_command env (Envelope cd) ad st)"

text \<open>A command is answered when its dispatch puts a datagram on the wire.\<close>

definition answered :: "environment \<Rightarrow> envelope \<Rightarrow> addr \<Rightarrow> server_state \<Rightarrow> bool" where
  "answered env cd ad st \<longleftrightarrow> sent (process_command env (Envelope cd) ad st) \<noteq> sent st"

fun all_answered :: "(environment \<times> envelope \<times> addr) list \<Rightarrow> server_state \<Rightarrow> bool" where
  "all_answered [] st = True"
| "all_answered ((env, cd, ad) # cs) st =
     (answered env cd ad st \<and> all_answered cs (process_command env (Envelope cd) ad st))"

text \<open>The exception, if any, that ends a task at its next resumption.\<close>

definition array_step_failure ::
  "environment \<Rightarrow> pyval list \<Rightarrow> pyval \<Rightarrow> exn option \<Rightarrow> server_state \<Rightarrow> exn option" where
  "array_step_failure env steps duration_ms sleep_error st =
     (case steps of [] \<Rightarrow> None | p # ps \<Rightarrow> fst (play_step env p duration_ms sleep_error st))"

fun step_failure :: "environment \<Rightarrow> task \<Rightarrow> server_state \<Rightarrow> exn option" where
  "step_failure env (PlayPattern pattern_file key client_id command_id) st = load_and_play_tact_file env"
| "step_failure env (PlayWave steps client_id command_id) st =
     array_step_failure env steps (PInt 500) None st"
| "step_failure env (PlayAlternating steps client_id command_id) st =
     array_step_failure env steps (PInt 1000) None st"
| "step_failure env (PlayCustom pattern steps duration_ms client_id command_id) st =
     array_step_failure env steps duration_ms (div_float_error duration_ms) st"

definition subscribers :: "server_state \<Rightarrow> string \<Rightarrow> string list" where
  "subscribers st event_type = (case event_handlers st event_type of None \<Rightarrow> [] | Some s \<Rightarrow> s)"

text \<open>Whether a datagram to a registered client would go out.\<close>

definition deliverable :: "environment \<Rightarrow> server_state \<Rightarrow> addr \<Rightarrow> pyval \<Rightarrow> bool" where
  "deliverable env st ad msg \<longleftrightarrow> server_socket st = OpenSocket \<and> \<not> sendto_fails env ad msg"

text \<open>
  The datagram that an event gives rise to for one recipient: one, to the address the
  registry holds for that client, when the client is registered and the datagram goes
  out; none otherwise. The datagrams of an event are those of its recipients, in order.
\<close>

definition client_delivery ::
  "environment \<Rightarrow> server_state \<Rightarrow> string \<Rightarrow> pyval \<Rightarrow> string \<Rightarrow> (addr \<times> pyval) list" where
  "client_delivery env st event_type data client_id =
     (case current_clients st client_id of
        None \<Rightarrow> []
      | Some a \<Rightarrow>
          if deliverable env st a (event_msg env event_type data)
          then [(a, event_msg env event_type data)] else [])"

definition event_delivery ::
  "environment \<Rightarrow> server_state \<Rightarrow> string \<Rightarrow> pyval \<Rightarrow> string \<Rightarrow> (addr \<times> pyval) list" where
  "event_delivery env st event_type data target_client_id =
     concat (map (client_delivery env st event_type data)
                 (event_recipients st event_type target_client_id))"

section \<open>Concrete states and environments\<close>

text \<open>
  The state after \<^verbatim>\<open>start\<close>: the globals as the module initialises them, both sockets
  bound, the player connected.
\<close>

definition started_state :: server_state where
  "started_state =
     \<lparr>running = True, cleanup_done = False, current_clients = Map.empty,
      active_command_ids = Map.empty, event_handlers = Map.empty,
      server_socket = OpenSocket, discovery_socket = OpenSocket,
      gloves_cleanup_done = False, array_cleanup_done = False, thread_should_exit = False,
      player_ws = True, trace = []\<rparr>"

text \<open>
  An environment in which nothing goes wrong: every datagram goes out, the player and the
  motor-control module accept every call, and the cleanup of the motor-control module does
  nothing of its own.
\<close>

definition quiet_env :: environment where
  "quiet_env =
     \<lparr>now_iso = ''2025-03-07T12:00:00'', time_now = 0, fresh_uuid = ''uuid-1'',
      sendto_fails = (\<lambda>ad msg. False),
      hmc_activate_discrete = (\<lambda>panel motor_index intensity duration_ms. Inr True),
      hmc_cleanup = (\<lambda>ws. ([], ws)),
      player_submit_dot = (\<lambda>g m p ds t. None),
      player_destroy = (\<lambda>n. None),
      load_and_play_tact_file = None,
      py_format = (\<lambda>v. ''?''),
      other_handler = (\<lambda>name params client_id command_id st. (Inr (Some (PDict [])), []))\<rparr>"

definition command_envelope :: "string \<Rightarrow> (string \<times> pyval) list \<Rightarrow> string \<Rightarrow> string \<Rightarrow> envelope" where
  "command_envelope command params command_id client_id =
     \<lparr>env_command = Some command, env_params = Some (PDict params),
      env_command_id = Some command_id, env_client_id = Some client_id\<rparr>"


text \<open>
  Three states of a running server: client \<open>c1\<close> registered; \<open>c1\<close> registered and subscribed
  to both terminal events; \<open>c1\<close> registered without a subscription next to a subscribed
  client \<open>c2\<close>.
\<close>

definition registered_state :: server_state where
  "registered_state = started_state\<lparr>current_clients := [''c1'' \<mapsto> (''10.0.0.1'', 5000)]\<rparr>"

definition subscribed_state :: server_state where
  "subscribed_state =
     registered_state\<lparr>event_handlers :=
       [''pattern_complete'' \<mapsto> [''c1''], ''pattern_error'' \<mapsto> [''c1'']]\<rparr>"

definition bystander_state :: server_state where
  "bystander_state =
     started_state\<lparr>current_clients :=
                     [''c1'' \<mapsto> (''10.0.0.1'', 5000), ''c2'' \<mapsto> (''10.0.0.2'', 5001)],
                   event_handlers :=
                     [''pattern_complete'' \<mapsto> [''c2''], ''pattern_error'' \<mapsto> [''c2'']]\<rparr>"

text \<open>A ping whose \<^verbatim>\<open>params\<close> are absent or a JSON object.\<close>

definition well_formed_ping :: "envelope \<Rightarrow> bool" where
  "well_formed_ping cd \<longleftrightarrow>
     env_command cd = Some ''ping'' \<and>
     (case env_params cd of None \<Rightarrow> True | Some (PDict d) \<Rightarrow> True | Some v \<Rightarrow> False)"

section \<open>What a handler may change\<close>

text \<open>
  Every handler of the dispatch table leaves the Client Registry alone, leaves every
  tracker entry other than the one of its own command alone, and removes its own entry
  only together with sending a datagram.
\<close>

definition handler_frame :: "string \<Rightarrow> server_state \<Rightarrow> server_state \<Rightarrow> bool" where
  "handler_frame command_id st st' \<longleftrightarrow>
     current_clients st' = current_clients st \<and>
     (\<forall>k. k \<noteq> command_id \<longrightarrow> active_command_ids st' k = active_command_ids st k) \<and>
     (active_command_ids st' command_id = None \<or>
      active_command_ids st' command_id = active_command_ids st command_id) \<and>
     (sent st' \<noteq> sent st \<longrightarrow> active_command_ids st' command_id = None)"

lemma sent_log_action: "sent (log_action a st) = sent st @ (case a of SendTo ad m \<Rightarrow> [(ad, m)] | _ \<Rightarrow> [])"
  by (simp add: sent_def log_action_def)

lemma send_response_cases:
  "send_response env result client_id command_id st = st \<or>
   (\<exists>ad. current_clients st client_id = Some ad \<and>
     send_response env result client_id command_id st =
       st\<lparr>trace := trace st @ [SendTo ad (response_msg env command_id result)],
          active_command_ids := (active_command_ids st)(command_id := None)\<rparr>)"
  by (auto simp: send_response_def sendto_def log_action_def split: option.splits sock.splits)

lemma send_error_response_cases:
  "send_error_response env msg client_id command_id st = st \<or>
   (\<exists>ad. current_clients st client_id = Some ad \<and>
     send_error_response env msg client_id command_id st =
       st\<lparr>trace := trace st @ [SendTo ad (error_msg env command_id msg)],
          active_command_ids := (active_command_ids st)(command_id := None)\<rparr>)"
  by (auto simp: send_error_response_def sendto_def log_action_def split: option.splits sock.splits)

lemma frame_refl: "handler_frame c st st"
  by (simp add: handler_frame_def)

lemma frame_log: "(\<And>ad m. a \<noteq> SendTo ad m) \<Longrightarrow> handler_frame c st (log_action a st)"
  by (cases a) (auto simp: handler_frame_def sent_def log_action_def)

lemma frame_send_response: "handler_frame c st (send_response env r cid c st)"
  using send_response_cases[of env r cid c st]
  by (auto simp: handler_frame_def sent_def)

lemma frame_send_error_response: "handler_frame c st (send_error_response env m cid c st)"
  using send_error_response_cases[of env m cid c st]
  by (auto simp: handler_frame_def sent_def)

lemma frame_ping: "handle_ping env p cid c st = (r, st') \<Longrightarrow> handler_frame c st st'"
  by (auto simp: handle_ping_def frame_refl split: pyval.splits)

lemma frame_register: "handle_register_event_callback env p cid c st = (r, st') \<Longrightarrow> handler_frame c st st'"
  by (auto simp: handle_register_event_callback_def Let_def frame_refl split: pyval.splits if_splits)

lemma frame_unregister: "handle_unregister_event_callback env p cid c st = (r, st') \<Longrightarrow> handler_frame c st st'"
  by (auto simp: handle_unregister_event_callback_def Let_def handler_frame_def sent_def split: pyval.splits if_splits option.splits)

lemma frame_initiate_shutdown: "handler_frame c st st1 \<Longrightarrow> handler_frame c st (initiate_shutdown force st1)"
  by (simp add: handler_frame_def initiate_shutdown_def sent_def log_action_def)

lemma frame_shutdown: "handle_shutdown env p cid c st = (r, st') \<Longrightarrow> handler_frame c st st'"
  by (auto simp: handle_shutdown_def Let_def frame_refl
           intro!: frame_initiate_shutdown frame_send_response split: pyval.splits)

lemma frame_discrete: "handle_activate_discrete env p cid c st = (r, st') \<Longrightarrow> handler_frame c st st'"
  by (auto simp: handle_activate_discrete_def Let_def frame_refl frame_log split: pyval.splits if_splits sum.splits)

lemma frame_glove_fn: "activate_glove_motor env g m i t st = (r, st') \<Longrightarrow> handler_frame c st st'"
  by (auto simp: activate_glove_motor_def Let_def frame_refl frame_log split: if_splits option.splits)

lemma frame_glove: "handle_activate_glove_motor env p cid c st = (r, st') \<Longrightarrow> handler_frame c st st'"
  by (auto simp: handle_activate_glove_motor_def Let_def frame_refl dest: frame_glove_fn split: pyval.splits if_splits sum.splits prod.splits)

lemma frame_play_pattern: "handle_play_pattern env p cid c st = (r, st') \<Longrightarrow> handler_frame c st st'"
  by (auto simp: handle_play_pattern_def Let_def frame_refl frame_log split: pyval.splits if_splits)

lemma frame_wave: "handle_play_wave_pattern env p cid c st = (r, st') \<Longrightarrow> handler_frame c st st'"
  by (auto simp: handle_play_wave_pattern_def frame_log)

lemma frame_alt: "handle_play_alternating_pattern env p cid c st = (r, st') \<Longrightarrow> handler_frame c st st'"
  by (auto simp: handle_play_alternating_pattern_def frame_log)

lemma frame_custom: "handle_play_custom_pattern env p cid c st = (r, st') \<Longrightarrow> handler_frame c st st'"
  by (auto simp: handle_play_custom_pattern_def Let_def frame_refl frame_log split: pyval.splits if_splits)

lemma sent_append_player_calls:
  "sent (st\<lparr>trace := trace st @ map (\<lambda>(f, args). PlayerCall f args) calls\<rparr>) = sent st"
  by (induction calls rule: rev_induct) (auto simp: sent_def split: prod.splits)

lemma frame_other: "handle_other env n p cid c st = (r, st') \<Longrightarrow> handler_frame c st st'"
  by (auto simp: handle_other_def handler_frame_def sent_append_player_calls split: prod.splits)

lemmas handler_frames = frame_ping frame_register frame_unregister frame_shutdown frame_discrete
  frame_glove frame_play_pattern frame_wave frame_alt frame_custom frame_other

lemma command_handlers_frame:
  "command_handlers env name = Some h \<Longrightarrow> h p cid c st = (r, st') \<Longrightarrow> handler_frame c st st'"
  unfolding command_handlers_def
  by (auto split: if_splits dest: handler_frames)


lemma process_command_frame:
  "handler_frame (envelope_command_id env cd) (track_command env (envelope_command_id env cd) (envelope_client_id ad cd) (env_command cd) (register_client (envelope_client_id ad cd) ad st))
      (process_command env (Envelope cd) ad st)"
proof -
  let ?c = "envelope_command_id env cd" and ?cid = "envelope_client_id ad cd"
  let ?st2 = "track_command env ?c ?cid (env_command cd) (register_client ?cid ad st)"
  let ?params = "case env_params cd of None \<Rightarrow> PDict [] | Some p \<Rightarrow> p"
  show ?thesis
  proof (cases "case env_command cd of None \<Rightarrow> None | Some c \<Rightarrow> command_handlers env c")
    case None
    then have "process_command env (Envelope cd) ad st =
        send_error_response env (''Unknown command: '' @ (case env_command cd of None \<Rightarrow> ''None'' | Some c \<Rightarrow> c)) ?cid ?c ?st2"
      by (simp add: process_command_def Let_def)
    then show ?thesis by (simp add: frame_send_error_response)
  next
    case (Some h)
    obtain r st3 where h: "h ?params ?cid ?c ?st2 = (r, st3)" by (cases "h ?params ?cid ?c ?st2")
    from Some obtain name where "command_handlers env name = Some h"
      by (auto split: option.splits)
    then have f3: "handler_frame ?c ?st2 st3" using h by (rule command_handlers_frame)
    have trans: "\<And>st4. handler_frame ?c st3 st4 \<Longrightarrow> handler_frame ?c ?st2 st4"
      using f3 by (auto simp: handler_frame_def)
    show ?thesis
    proof (cases r)
      case (Inl e)
      then have pc: "process_command env (Envelope cd) ad st =
          (case env_command_id cd of None \<Rightarrow> st3
           | Some c \<Rightarrow> if c = [] then st3 else send_error_response env (''Error processing command: '' @ exn_str e) ?cid c st3)"
        using Some h by (simp add: process_command_def Let_def)
      show ?thesis
      proof (cases "env_command_id cd")
        case None
        then show ?thesis using pc f3 by simp
      next
        case (Some c)
        then have "?c = c" by (simp add: envelope_command_id_def)
        then show ?thesis using pc Some trans[OF frame_send_error_response] f3
          by (auto simp: )
      qed
    next
      case (Inr ro)
      then show ?thesis
        using Some h f3 trans[OF frame_send_response]
        by (cases ro) (auto simp: process_command_def Let_def)
    qed
  qed
qed

lemma sent_track_register:
  "sent (track_command env c cid cmd (register_client cid ad st)) = sent st"
  by (simp add: track_command_def register_client_def sent_def)

lemma process_command_removes_answered:
  "answered env cd ad st \<Longrightarrow>
   active_command_ids (process_command env (Envelope cd) ad st) (envelope_command_id env cd) = None"
  using process_command_frame[of env cd ad st]
  by (simp add: answered_def handler_frame_def sent_track_register)

lemma process_command_others:
  "k \<noteq> envelope_command_id env cd \<Longrightarrow>
   active_command_ids (process_command env (Envelope cd) ad st) k = active_command_ids st k"
  using process_command_frame[of env cd ad st]
  by (simp add: handler_frame_def track_command_def register_client_def)

lemma process_command_dom:
  "answered env cd ad st \<Longrightarrow>
   dom (active_command_ids (process_command env (Envelope cd) ad st)) \<subseteq> dom (active_command_ids st)"
proof
  fix k assume a: "answered env cd ad st" and k: "k \<in> dom (active_command_ids (process_command env (Envelope cd) ad st))"
  then have "k \<noteq> envelope_command_id env cd"
    using process_command_removes_answered[OF a] by auto
  then show "k \<in> dom (active_command_ids st)"
    using k process_command_others[of k env cd ad st] by (simp add: dom_def)
qed

lemma dispatch_all_dom:
  "all_answered cs st \<Longrightarrow> dom (active_command_ids (dispatch_all cs st)) \<subseteq> dom (active_command_ids st)"
proof (induction cs arbitrary: st)
  case Nil
  then show ?case by simp
next
  case (Cons c cs)
  obtain env cd ad where c: "c = (env, cd, ad)" by (cases c) auto
  from Cons.prems c have a: "answered env cd ad st"
    and rest: "all_answered cs (process_command env (Envelope cd) ad st)" by auto
  from Cons.IH[OF rest] process_command_dom[OF a] show ?case
    using c by auto
qed

lemma process_command_clients:
  "current_clients (process_command env (Envelope cd) ad st) =
     (if current_clients st (envelope_client_id ad cd) = None
      then (current_clients st)(envelope_client_id ad cd \<mapsto> ad)
      else current_clients st)"
  using process_command_frame[of env cd ad st]
  by (simp add: handler_frame_def track_command_def register_client_def)



section \<open>The correlation tracker and the client registry\<close>

lemma command_handlers_ping: "command_handlers env ''ping'' = Some (handle_ping env)"
  by (simp add: command_handlers_def)

lemma process_command_ping:
  assumes wf: "well_formed_ping cd" and sock: "server_socket st = OpenSocket"
    and net: "\<And>a m. \<not> sendto_fails env a m"
  shows "process_command env (Envelope cd) ad st =
           (register_client (envelope_client_id ad cd) ad st)
             \<lparr>trace := trace st @
                [SendTo (case current_clients st (envelope_client_id ad cd) of None \<Rightarrow> ad | Some a \<Rightarrow> a)
                   (response_msg env (envelope_command_id env cd)
                      (PDict [(''success'', PBool True), (''message'', PStr ''Pong''),
                         (''timestamp'', PStr (now_iso env)),
                         (''echo'', dict_get (case env_params cd of Some (PDict d) \<Rightarrow> d | _ \<Rightarrow> [])
                                      ''message'' (PStr []))]))],
              active_command_ids := (active_command_ids st)(envelope_command_id env cd := None)\<rparr>"
proof -
  let ?cid = "envelope_client_id ad cd" and ?c = "envelope_command_id env cd"
  have cmd: "env_command cd = Some ''ping''" using wf by (simp add: well_formed_ping_def)
  have params: "env_params cd = None \<or> (\<exists>d. env_params cd = Some (PDict d))"
    using wf by (auto simp: well_formed_ping_def split: option.splits pyval.splits)
  show ?thesis
    using cmd params sock
    by (cases "current_clients st ?cid")
       (auto simp: net process_command_def Let_def command_handlers_ping handle_ping_def
          send_response_def sendto_def log_action_def track_command_def register_client_def)
qed

lemma ping_answered:
  assumes "well_formed_ping cd" "server_socket st = OpenSocket" "\<And>a m. \<not> sendto_fails env a m"
  shows "answered env cd ad st \<and> server_socket (process_command env (Envelope cd) ad st) = OpenSocket"
  using assms(2)
  by (simp add: process_command_ping[OF assms] answered_def sent_def register_client_def)

lemma ping_traffic_answered:
  "server_socket st = OpenSocket \<Longrightarrow>
   \<forall>(env, cd, ad) \<in> set cs. well_formed_ping cd \<and> (\<forall>a m. \<not> sendto_fails env a m) \<Longrightarrow>
   all_answered cs st"
proof (induction cs arbitrary: st)
  case Nil
  then show ?case by simp
next
  case (Cons c cs)
  obtain env cd ad where c: "c = (env, cd, ad)" by (cases c) auto
  with Cons.prems have wf: "well_formed_ping cd" and net: "\<And>a m. \<not> sendto_fails env a m" by auto
  from ping_answered[OF wf Cons.prems(1) net, of ad]
  have "answered env cd ad st" and "server_socket (process_command env (Envelope cd) ad st) = OpenSocket"
    by auto
  moreover have "all_answered cs (process_command env (Envelope cd) ad st)"
    using Cons.IH[OF \<open>server_socket (process_command env (Envelope cd) ad st) = OpenSocket\<close>] Cons.prems(2)
    by auto
  ultimately show ?case using c by simp
qed

text \<open>
  Claim C4. When the dispatch of a command puts its response or error response on the
  wire, the command's entry is gone from \<^verbatim>\<open>active_command_ids\<close> afterwards. Over a run in
  which every command is answered the set of tracked command ids never exceeds the set
  tracked at the start; ping traffic on an open socket with a working network is such a
  run.
\<close>

theorem answered_commands_leave_tracker:
  "(answered env cd ad st \<longrightarrow>
      active_command_ids (process_command env (Envelope cd) ad st) (envelope_command_id env cd) = None) \<and>
   (all_answered cs st \<longrightarrow>
      dom (active_command_ids (dispatch_all cs st)) \<subseteq> dom (active_command_ids st)) \<and>
   (server_socket st = OpenSocket \<and>
    (\<forall>(env, cd, ad) \<in> set cs. well_formed_ping cd \<and> (\<forall>a m. \<not> sendto_fails env a m)) \<longrightarrow>
      all_answered cs st \<and>
      dom (active_command_ids (dispatch_all cs st)) \<subseteq> dom (active_command_ids st))"
  using process_command_removes_answered dispatch_all_dom ping_traffic_answered by blast

lemma wf_ping_envelope: "well_formed_ping (command_envelope ''ping'' d k c)"
  by (simp add: well_formed_ping_def command_envelope_def)

lemma quiet_net: "\<not> sendto_fails quiet_env a m"
  by (simp add: quiet_env_def)

lemma started_socket: "server_socket started_state = OpenSocket"
  by (simp add: started_state_def)

theorem answered_commands_leave_tracker_witness:
  "answered quiet_env (command_envelope ''ping'' [(''message'', PStr ''hi'')] ''k1'' ''c1'')
      (''10.0.0.1'', 5000) started_state \<and>
   active_command_ids
     (process_command quiet_env
        (Envelope (command_envelope ''ping'' [(''message'', PStr ''hi'')] ''k1'' ''c1''))
        (''10.0.0.1'', 5000) started_state) ''k1'' = None \<and>
   all_answered
     [(quiet_env, command_envelope ''ping'' [] ''k1'' ''c1'', (''10.0.0.1'', 5000)),
      (quiet_env, command_envelope ''ping'' [] ''k2'' ''c1'', (''10.0.0.1'', 5000))] started_state \<and>
   dom (active_command_ids
     (dispatch_all
        [(quiet_env, command_envelope ''ping'' [] ''k1'' ''c1'', (''10.0.0.1'', 5000)),
         (quiet_env, command_envelope ''ping'' [] ''k2'' ''c1'', (''10.0.0.1'', 5000))] started_state))
     \<subseteq> dom (active_command_ids started_state)"
proof -
  have a: "answered quiet_env (command_envelope ''ping'' [(''message'', PStr ''hi'')] ''k1'' ''c1'')
      (''10.0.0.1'', 5000) started_state"
    using ping_answered[OF wf_ping_envelope started_socket quiet_net] by simp
  have k: "envelope_command_id quiet_env (command_envelope ''ping'' [(''message'', PStr ''hi'')] ''k1'' ''c1'') = ''k1''"
    by (simp add: envelope_command_id_def command_envelope_def)
  have h: "server_socket started_state = OpenSocket \<and>
    (\<forall>(env, cd, ad) \<in> set [(quiet_env, command_envelope ''ping'' [] ''k1'' ''c1'', (''10.0.0.1'', 5000::int)),
      (quiet_env, command_envelope ''ping'' [] ''k2'' ''c1'', (''10.0.0.1'', 5000))].
        well_formed_ping cd \<and> (\<forall>a m. \<not> sendto_fails env a m))"
    by (simp add: started_socket wf_ping_envelope quiet_net)
  show ?thesis
    using a k h
      answered_commands_leave_tracker[of quiet_env
        "command_envelope ''ping'' [(''message'', PStr ''hi'')] ''k1'' ''c1''" "(''10.0.0.1'', 5000)"
        started_state
        "[(quiet_env, command_envelope ''ping'' [] ''k1'' ''c1'', (''10.0.0.1'', 5000)),
          (quiet_env, command_envelope ''ping'' [] ''k2'' ''c1'', (''10.0.0.1'', 5000))]"]
    by simp
qed

text \<open>
  Claim C5, amended. After the dispatch of a decoded command with client id \<open>C\<close> from
  address \<open>A\<close> the Client Registry has an entry for \<open>C\<close>: the address \<open>A\<close> when \<open>C\<close> was not yet
  registered, and the address already stored otherwise. Every other entry is unchanged.
\<close>

theorem registry_keeps_first_address:
  "current_clients (process_command env (Envelope cd) ad st) =
     (if current_clients st (envelope_client_id ad cd) = None
      then (current_clients st)(envelope_client_id ad cd \<mapsto> ad)
      else current_clients st)"
  by (rule process_command_clients)

theorem registry_keeps_first_address_witness:
  "current_clients
     (process_command quiet_env (Envelope (command_envelope ''ping'' [] ''k1'' ''c1''))
        (''10.0.0.1'', 5000) started_state) ''c1'' = Some (''10.0.0.1'', 5000)"
  using registry_keeps_first_address[of quiet_env "command_envelope ''ping'' [] ''k1'' ''c1''"
      "(''10.0.0.1'', 5000)" started_state]
  by (simp add: envelope_client_id_def command_envelope_def started_state_def)

text \<open>
  The claim as stated fails: a client registered from port 5000 that sends its next
  command from another address keeps its first address.
\<close>

theorem registry_last_write_wins_counterexample:
  "current_clients
     (process_command quiet_env (Envelope (command_envelope ''ping'' [] ''k2'' ''c1''))
        (''10.0.0.2'', 5001)
        (started_state\<lparr>current_clients := [''c1'' \<mapsto> (''10.0.0.1'', 5000)]\<rparr>)) ''c1''
     = Some (''10.0.0.1'', 5000) \<and>
   current_clients
     (process_command quiet_env (Envelope (command_envelope ''ping'' [] ''k2'' ''c1''))
        (''10.0.0.2'', 5001)
        (started_state\<lparr>current_clients := [''c1'' \<mapsto> (''10.0.0.1'', 5000)]\<rparr>)) ''c1''
     \<noteq> Some (''10.0.0.2'', 5001)"
  by (simp add: process_command_clients envelope_client_id_def command_envelope_def)

lemma dispatch_all_others:
  "\<forall>(env, cd, ad) \<in> set cs. envelope_command_id env cd \<noteq> k \<Longrightarrow>
   active_command_ids (dispatch_all cs st) k = active_command_ids st k"
proof (induction cs arbitrary: st)
  case Nil
  then show ?case by simp
next
  case (Cons c cs)
  obtain env cd ad where c: "c = (env, cd, ad)" by (cases c) auto
  with Cons.prems have ne: "k \<noteq> envelope_command_id env cd" by auto
  have "active_command_ids (dispatch_all cs (process_command env (Envelope cd) ad st)) k =
        active_command_ids (process_command env (Envelope cd) ad st) k"
    using Cons.IH Cons.prems by simp
  then show ?case using c process_command_others[OF ne] by simp
qed

text \<open>
  Claim C9. When the target client is not in the Client Registry, \<^verbatim>\<open>send_response\<close> and
  \<^verbatim>\<open>send_error_response\<close> change nothing: no datagram is sent and the tracker keeps the
  command's entry. The entry then survives every later dispatch of a command that is
  tracked under a different command id.
\<close>

theorem unknown_client_response_dropped:
  assumes "current_clients st client_id = None"
  shows "send_response env result client_id command_id st = st \<and>
         send_error_response env msg client_id command_id st = st \<and>
         ((\<forall>(env', cd, ad) \<in> set cs. envelope_command_id env' cd \<noteq> command_id) \<longrightarrow>
            active_command_ids (dispatch_all cs st) command_id = active_command_ids st command_id)"
  using assms dispatch_all_others[of cs command_id st]
  by (simp add: send_response_def send_error_response_def)

theorem unknown_client_response_dropped_witness:
  "current_clients (started_state\<lparr>active_command_ids :=
       [''k1'' \<mapsto> \<lparr>entry_client_id = ''c1'', entry_command = Some ''ping'', entry_start_time = 0\<rparr>]\<rparr>) ''c1'' = None \<and>
   send_response quiet_env (PDict []) ''c1'' ''k1''
     (started_state\<lparr>active_command_ids :=
       [''k1'' \<mapsto> \<lparr>entry_client_id = ''c1'', entry_command = Some ''ping'', entry_start_time = 0\<rparr>]\<rparr>)
     = started_state\<lparr>active_command_ids :=
       [''k1'' \<mapsto> \<lparr>entry_client_id = ''c1'', entry_command = Some ''ping'', entry_start_time = 0\<rparr>]\<rparr> \<and>
   active_command_ids
     (dispatch_all [(quiet_env, command_envelope ''ping'' [] ''k2'' ''c2'', (''10.0.0.2'', 5001))]
       (started_state\<lparr>active_command_ids :=
         [''k1'' \<mapsto> \<lparr>entry_client_id = ''c1'', entry_command = Some ''ping'', entry_start_time = 0\<rparr>]\<rparr>))
     ''k1'' = Some \<lparr>entry_client_id = ''c1'', entry_command = Some ''ping'', entry_start_time = 0\<rparr>"
proof -
  let ?st = "started_state\<lparr>active_command_ids :=
       [''k1'' \<mapsto> \<lparr>entry_client_id = ''c1'', entry_command = Some ''ping'', entry_start_time = 0\<rparr>]\<rparr>"
  have h: "current_clients ?st ''c1'' = None" by (simp add: started_state_def)
  have q: "\<forall>(env', cd, ad) \<in> set [(quiet_env, command_envelope ''ping'' [] ''k2'' ''c2'', (''10.0.0.2'', 5001::int))].
             envelope_command_id env' cd \<noteq> ''k1''"
    by (simp add: envelope_command_id_def command_envelope_def)
  show ?thesis
    using h q unknown_client_response_dropped[OF h, of quiet_env "PDict []" "''k1''" "''x''"
        "[(quiet_env, command_envelope ''ping'' [] ''k2'' ''c2'', (''10.0.0.2'', 5001))]"]
    by simp
qed



section \<open>Parameter validation\<close>

text \<open>
  Claim C8, amended. For an \<^verbatim>\<open>activate_discrete\<close> command whose \<^verbatim>\<open>params\<close> are a JSON object
  and whose \<^verbatim>\<open>motor_index\<close> is not a Python \<^verbatim>\<open>int\<close> in 0..19 (missing, of another type, or
  out of range; a JSON boolean is an \<^verbatim>\<open>int\<close> for \<^verbatim>\<open>isinstance\<close>), the handler returns a
  failure result and leaves the state, and with it the trace of player calls, as it was.
  The error text is the motor-index message when the panel is \<^verbatim>\<open>front\<close> or \<^verbatim>\<open>back\<close>, and the
  panel message otherwise, because the panel is checked first. The same holds for
  \<^verbatim>\<open>activate_glove_motor\<close> with the range 0..5 and the gloves \<^verbatim>\<open>left\<close> and \<^verbatim>\<open>right\<close>.
\<close>

theorem invalid_motor_index_rejected:
  "(\<not> (isinstance_int (dict_get d ''motor_index'' PNone) \<and>
        0 \<le> int_value (dict_get d ''motor_index'' PNone) \<and>
        int_value (dict_get d ''motor_index'' PNone) \<le> 19) \<longrightarrow>
      handle_activate_discrete env (PDict d) client_id command_id st =
        (Inr (Some (fail_result
           (if dict_get d ''panel'' PNone \<in> set [PStr ''front'', PStr ''back'']
            then ''Motor index must be an integer between 0 and 19''
            else ''Panel must be '' @ quoted ''front'' @ '' or '' @ quoted ''back''))), st)) \<and>
   (\<not> (isinstance_int (dict_get d ''motor_index'' PNone) \<and>
        0 \<le> int_value (dict_get d ''motor_index'' PNone) \<and>
        int_value (dict_get d ''motor_index'' PNone) \<le> 5) \<longrightarrow>
      handle_activate_glove_motor env (PDict d) client_id command_id st =
        (Inr (Some (fail_result
           (if dict_get d ''glove'' PNone \<in> set [PStr ''left'', PStr ''right'']
            then ''Motor index must be an integer between 0 and 5''
            else ''Glove must be '' @ quoted ''left'' @ '' or '' @ quoted ''right''))), st))"
  by (auto simp: handle_activate_discrete_def handle_activate_glove_motor_def Let_def)

theorem invalid_motor_index_rejected_witness:
  "handle_activate_discrete quiet_env
     (PDict [(''panel'', PStr ''front''), (''motor_index'', PInt 25), (''intensity'', PInt 100),
             (''duration_ms'', PInt 500)]) ''c1'' ''k1'' started_state =
     (Inr (Some (fail_result ''Motor index must be an integer between 0 and 19'')), started_state) \<and>
   handle_activate_glove_motor quiet_env
     (PDict [(''glove'', PStr ''left''), (''motor_index'', PInt 6)]) ''c1'' ''k1'' started_state =
     (Inr (Some (fail_result ''Motor index must be an integer between 0 and 5'')), started_state)"
  using invalid_motor_index_rejected[of
      "[(''panel'', PStr ''front''), (''motor_index'', PInt 25), (''intensity'', PInt 100),
        (''duration_ms'', PInt 500)]" quiet_env "''c1''" "''k1''" started_state]
    invalid_motor_index_rejected[of
      "[(''glove'', PStr ''left''), (''motor_index'', PInt 6)]" quiet_env "''c1''" "''k1''" started_state]
  by (simp add: dict_get_def)

text \<open>
  The claim as stated fails on the error text: with a panel that is neither \<^verbatim>\<open>front\<close> nor
  \<^verbatim>\<open>back\<close>, motor index 25 is answered with the panel message.
\<close>

theorem motor_index_message_counterexample:
  "handle_activate_discrete quiet_env
     (PDict [(''panel'', PStr ''side''), (''motor_index'', PInt 25), (''intensity'', PInt 100),
             (''duration_ms'', PInt 500)]) ''c1'' ''k1'' started_state =
     (Inr (Some (fail_result (''Panel must be '' @ quoted ''front'' @ '' or '' @ quoted ''back''))),
      started_state) \<and>
   fst (handle_activate_discrete quiet_env
     (PDict [(''panel'', PStr ''side''), (''motor_index'', PInt 25), (''intensity'', PInt 100),
             (''duration_ms'', PInt 500)]) ''c1'' ''k1'' started_state) \<noteq>
     Inr (Some (fail_result ''Motor index must be an integer between 0 and 19''))"
  by (simp add: handle_activate_discrete_def dict_get_def fail_result_def quoted_def)

text \<open>
  Claim C10. JSON \<^verbatim>\<open>true\<close> passes the \<^verbatim>\<open>isinstance(..., int)\<close> range checks as the integer 1:
  \<^verbatim>\<open>activate_discrete\<close> with \<^verbatim>\<open>motor_index\<close>, \<^verbatim>\<open>intensity\<close> and \<^verbatim>\<open>duration_ms\<close> all \<^verbatim>\<open>true\<close> calls
  \<^verbatim>\<open>hmc_activate_discrete\<close> with these booleans, and \<^verbatim>\<open>activate_glove_motor\<close> submits the dot
  to the player.
\<close>

theorem boolean_parameters_accepted:
  "handle_activate_discrete env
     (PDict [(''panel'', PStr ''front''), (''motor_index'', PBool True), (''intensity'', PBool True),
             (''duration_ms'', PBool True)]) client_id command_id st =
     ((case hmc_activate_discrete env (PStr ''front'') (PBool True) (PBool True) (PBool True) of
         Inl e \<Rightarrow> Inl e
       | Inr success \<Rightarrow>
           Inr (Some (if success
                      then PDict [(''success'', PBool True), (''panel'', PStr ''front''),
                             (''motor_index'', PBool True), (''intensity'', PBool True),
                             (''duration_ms'', PBool True)]
                      else fail_result ''Failed to activate motor''))),
      log_action (ActivateDiscrete (PStr ''front'') (PBool True) (PBool True) (PBool True)) st) \<and>
   handle_activate_glove_motor env
     (PDict [(''glove'', PStr ''left''), (''motor_index'', PBool True), (''intensity'', PBool True),
             (''duration_ms'', PBool True)]) client_id command_id st =
     (Inr (Some (case player_submit_dot env ''Left'' (PBool True) ''GloveL''
                        (PList [PDict [(''index'', PBool True), (''intensity'', PBool True)]])
                        (PBool True) of
                   None \<Rightarrow> PDict [(''success'', PBool True), (''glove'', PStr ''left''),
                             (''motor_index'', PBool True), (''intensity'', PBool True),
                             (''duration_ms'', PBool True)]
                 | Some e \<Rightarrow> fail_result ''Failed to activate glove motor'')),
      log_action (SubmitDot ''Left'' (PBool True) ''GloveL''
                    (PList [PDict [(''index'', PBool True), (''intensity'', PBool True)]])
                    (PBool True)) st) \<and>
   int_value (PBool True) = 1"
  by (simp add: handle_activate_discrete_def handle_activate_glove_motor_def activate_glove_motor_def
      dict_get_def Let_def lower_def lower_char_def upper_char_def split: sum.splits option.splits)

theorem boolean_parameters_accepted_witness:
  "trace (snd (handle_activate_discrete quiet_env
     (PDict [(''panel'', PStr ''front''), (''motor_index'', PBool True), (''intensity'', PBool True),
             (''duration_ms'', PBool True)]) ''c1'' ''k1'' started_state)) =
     [ActivateDiscrete (PStr ''front'') (PBool True) (PBool True) (PBool True)]"
  using boolean_parameters_accepted[of quiet_env "''c1''" "''k1''" started_state]
  by (simp add: log_action_def started_state_def)

text \<open>
  Claim C1, evaluated on the code. With a non-empty \<^verbatim>\<open>event_type\<close> the handler raises
  NameError and the subscriptions stay as they were, also after the whole dispatch; with
  \<^verbatim>\<open>event_type\<close> missing the error text of the result speaks of the intensity.
\<close>

theorem register_event_callback_raises:
  "handle_register_event_callback env (PDict [(''event_type'', PStr ''pattern_complete'')])
     client_id command_id st =
     (Inl (NameError (''name '' @ quoted ''duration_ms'' @ '' is not defined'')), st) \<and>
   handle_register_event_callback env (PDict []) client_id command_id st =
     (Inr (Some (fail_result ''Intensity must be an integer between 0 and 100'')), st) \<and>
   event_handlers
     (process_command env
        (Envelope (command_envelope ''register_event_callback''
                     [(''event_type'', PStr ''pattern_complete'')] ''k1'' ''c1'')) ad st) =
     event_handlers st"
  by (auto simp: handle_register_event_callback_def dict_get_def process_command_def Let_def
      command_envelope_def command_handlers_def envelope_command_id_def envelope_client_id_def
      send_error_response_def sendto_def log_action_def track_command_def register_client_def
      split: option.splits sock.splits)



section \<open>Shutdown\<close>

lemma destroy_count_append: "destroy_count (xs @ ys) = destroy_count xs + destroy_count ys"
  by (simp add: destroy_count_def)

lemma close_ws_destroys: "destroy_count (trace (close_ws st)) = destroy_count (trace st)"
  by (simp add: close_ws_def log_action_def destroy_count_def)

lemma call_destroy_count:
  "destroy_count (trace (snd (call_destroy env st))) = Suc (destroy_count (trace st))"
  by (simp add: call_destroy_def log_action_def destroy_count_def)

lemma gloves_cleanup_count:
  "destroy_count (trace (gloves_cleanup env st)) \<le> Suc (destroy_count (trace st))"
  using call_destroy_count[of env "close_ws st"]
  by (auto simp: gloves_cleanup_def close_ws_destroys split: prod.splits option.splits)

lemma array_example_cleanup_count:
  "destroy_count (trace (array_example_cleanup env st)) \<le> Suc (destroy_count (trace st))"
  using call_destroy_count[of env "close_ws st"]
  by (auto simp: array_example_cleanup_def close_ws_destroys split: prod.splits option.splits)

lemma pattern_player_cleanup_count:
  "destroy_count (trace (pattern_player_cleanup env st)) = Suc (destroy_count (trace st))"
  using call_destroy_count[of env "st\<lparr>thread_should_exit := True\<rparr>"]
  by (simp add: pattern_player_cleanup_def)

lemma hmc_cleanup_call_count:
  "destroy_count (trace (hmc_cleanup_call env st)) =
     destroy_count (trace st) + destroy_count (fst (hmc_cleanup env (player_ws st)))"
  by (simp add: hmc_cleanup_call_def destroy_count_append split: prod.splits)

lemma cleanup_haptics_count:
  "destroy_count (trace (cleanup_haptics env st)) \<le>
     destroy_count (trace st) + destroy_count (fst (hmc_cleanup env (player_ws st))) + 3"
proof -
  let ?s1 = "hmc_cleanup_call env st"
  let ?s2 = "gloves_cleanup env ?s1"
  let ?s3 = "pattern_player_cleanup env ?s2"
  have "destroy_count (trace (array_example_cleanup env ?s3)) \<le> Suc (destroy_count (trace ?s3))"
    by (rule array_example_cleanup_count)
  also have "destroy_count (trace ?s3) = Suc (destroy_count (trace ?s2))"
    by (rule pattern_player_cleanup_count)
  finally have "destroy_count (trace (array_example_cleanup env ?s3)) \<le> Suc (Suc (destroy_count (trace ?s2)))"
    by simp
  moreover have "destroy_count (trace ?s2) \<le> Suc (destroy_count (trace ?s1))"
    by (rule gloves_cleanup_count)
  ultimately show ?thesis
    by (simp add: cleanup_haptics_def hmc_cleanup_call_count)
qed

lemma close_sockets_facts:
  "player_ws (close_discovery_socket (close_server_socket st)) = player_ws st"
  "destroy_count (trace (close_discovery_socket (close_server_socket st))) = destroy_count (trace st)"
  by (simp_all add: close_discovery_socket_def close_server_socket_def log_action_def destroy_count_def)

lemma stop_done: "cleanup_done (stop env st)"
  by (simp add: stop_def)

text \<open>
  Claim C7, amended. \<^verbatim>\<open>stop\<close> sets the server's \<^verbatim>\<open>cleanup_done\<close>, and a second invocation
  after a completed first one returns at once: the state, and so the trace, is the one the
  first invocation left, with no further socket close and no further \<^verbatim>\<open>player.destroy()\<close>,
  and no exception can arise. Within one invocation the cleanups of the glove, pattern
  player and array modules each call \<^verbatim>\<open>player.destroy()\<close> at most once, which bounds the
  calls by three plus those made by the cleanup of \<^verbatim>\<open>haptics_motor_control\<close>.
\<close>

theorem stop_is_idempotent:
  "cleanup_done (stop env st) \<and>
   stop env' (stop env st) = stop env st \<and>
   (cleanup_done st \<longrightarrow> stop env st = st) \<and>
   destroy_count (trace (stop env st)) \<le>
     destroy_count (trace st) + destroy_count (fst (hmc_cleanup env (player_ws st))) + 3"
proof -
  have "stop env' (stop env st) = stop env st"
    using stop_done[of env st] by (simp add: stop_def[of env'])
  moreover have "destroy_count (trace (stop env st)) \<le>
     destroy_count (trace st) + destroy_count (fst (hmc_cleanup env (player_ws st))) + 3"
    using cleanup_haptics_count[of env "close_discovery_socket (close_server_socket st)"]
    by (simp add: stop_def close_sockets_facts)
  ultimately show ?thesis by (simp add: stop_done) (simp add: stop_def)
qed

lemma stop_started:
  "trace (stop quiet_env started_state) =
     [CloseServerSocket, CloseDiscoverySocket, WsClose, Destroy, Destroy, Destroy]"
  by (simp add: stop_def cleanup_haptics_def hmc_cleanup_call_def gloves_cleanup_def
      pattern_player_cleanup_def array_example_cleanup_def call_destroy_def close_ws_def
      close_discovery_socket_def close_server_socket_def log_action_def destroy_count_def
      started_state_def quiet_env_def)

theorem stop_is_idempotent_witness:
  "cleanup_done (stop quiet_env started_state) \<and>
   trace (stop quiet_env (stop quiet_env started_state)) =
     [CloseServerSocket, CloseDiscoverySocket, WsClose, Destroy, Destroy, Destroy] \<and>
   destroy_count (trace (stop quiet_env (stop quiet_env started_state))) \<le> 3"
  using stop_is_idempotent[of quiet_env started_state quiet_env]
  by (simp add: stop_started destroy_count_def)

text \<open>
  The claim as stated fails on "at most once per process lifetime": one shutdown of a
  freshly started server calls \<^verbatim>\<open>player.destroy()\<close> three times, once from each collaborator
  module's cleanup.
\<close>

theorem single_teardown_counterexample:
  "destroy_count (trace (stop quiet_env started_state)) = 3 \<and>
   \<not> destroy_count (trace (stop quiet_env started_state)) \<le> 1"
  by (simp add: stop_started destroy_count_def)



lemma command_handlers_shutdown: "command_handlers env ''shutdown'' = Some (handle_shutdown env)"
  by (simp add: command_handlers_def)

lemma trace_call_destroy: "trace (snd (call_destroy env st)) = trace st @ [Destroy]"
  by (simp add: call_destroy_def log_action_def)

lemma trace_close_ws: "\<exists>r. trace (close_ws st) = trace st @ r"
  by (simp add: close_ws_def log_action_def)

lemma trace_gloves_cleanup: "\<exists>r. trace (gloves_cleanup env st) = trace st @ r"
  using trace_close_ws[of st] trace_call_destroy[of env "close_ws st"]
  by (auto simp: gloves_cleanup_def split: prod.splits option.splits)

lemma trace_array_example_cleanup: "\<exists>r. trace (array_example_cleanup env st) = trace st @ r"
  using trace_close_ws[of st] trace_call_destroy[of env "close_ws st"]
  by (auto simp: array_example_cleanup_def split: prod.splits option.splits)

lemma trace_pattern_player_cleanup: "\<exists>r. trace (pattern_player_cleanup env st) = trace st @ r"
  using trace_call_destroy[of env "st\<lparr>thread_should_exit := True\<rparr>"]
  by (simp add: pattern_player_cleanup_def)

lemma trace_hmc_cleanup_call: "\<exists>r. trace (hmc_cleanup_call env st) = trace st @ r"
  by (simp add: hmc_cleanup_call_def split: prod.splits)

lemma trace_cleanup_haptics: "\<exists>r. trace (cleanup_haptics env st) = trace st @ r"
proof -
  obtain r1 where r1: "trace (hmc_cleanup_call env st) = trace st @ r1"
    using trace_hmc_cleanup_call by blast
  obtain r2 where r2: "trace (gloves_cleanup env (hmc_cleanup_call env st)) = trace (hmc_cleanup_call env st) @ r2"
    using trace_gloves_cleanup by blast
  obtain r3 where r3: "trace (pattern_player_cleanup env (gloves_cleanup env (hmc_cleanup_call env st))) =
      trace (gloves_cleanup env (hmc_cleanup_call env st)) @ r3"
    using trace_pattern_player_cleanup by blast
  obtain r4 where r4: "trace (cleanup_haptics env st) =
      trace (pattern_player_cleanup env (gloves_cleanup env (hmc_cleanup_call env st))) @ r4"
    unfolding cleanup_haptics_def using trace_array_example_cleanup by blast
  show ?thesis using r1 r2 r3 r4 by simp
qed

lemma trace_stop: "\<exists>r. trace (stop env st) = trace st @ r"
proof (cases "cleanup_done st")
  case True
  then show ?thesis by (simp add: stop_def)
next
  case False
  have "\<exists>r0. trace (close_discovery_socket (close_server_socket st)) = trace st @ r0"
    by (auto simp: close_discovery_socket_def close_server_socket_def log_action_def)
  then obtain r0 where r0: "trace (close_discovery_socket (close_server_socket st)) = trace st @ r0"
    by blast
  obtain r where "trace (cleanup_haptics env (close_discovery_socket (close_server_socket st))) =
      trace (close_discovery_socket (close_server_socket st)) @ r"
    using trace_cleanup_haptics by blast
  then show ?thesis using False r0 by (simp add: stop_def)
qed

text \<open>
  Claim C6. The dispatch of a \<^verbatim>\<open>shutdown\<close> command (its \<^verbatim>\<open>params\<close> absent or a JSON object)
  adds to the trace the success response, when the socket is open and the datagram goes
  out, and after it the scheduled \<^verbatim>\<open>os._exit\<close> when \<^verbatim>\<open>force\<close> is truthy; nothing else. With
  a falsy \<^verbatim>\<open>force\<close> the only other effect is that the run flag is cleared; with a truthy
  \<^verbatim>\<open>force\<close> the run flag is left alone and the exit is scheduled. Sockets, cleanup flags
  and the player handle are untouched by the dispatch, so every action of a later \<^verbatim>\<open>stop\<close>
  comes after the response in the trace. The handler returns \<^verbatim>\<open>None\<close>, and the trace holds
  one response only.
\<close>

theorem shutdown_responds_first:
  assumes cmd: "env_command cd = Some ''shutdown''"
    and params: "env_params cd = Some (PDict d) \<or> env_params cd = None \<and> d = []"
    and cid: "cid = envelope_client_id ad cd"
    and c: "c = envelope_command_id env cd"
    and a: "a = (case current_clients st cid of None \<Rightarrow> ad | Some a0 \<Rightarrow> a0)"
    and force: "force = dict_get d ''force'' (PBool False)"
    and msg: "msg = response_msg env c
                (PDict [(''success'', PBool True), (''message'', PStr ''Server is shutting down''),
                        (''force'', force)])"
    and st': "st' = process_command env (Envelope cd) ad st"
  shows "trace st' = trace st @ (if deliverable env st a msg then [SendTo a msg] else [])
                       @ (if truthy force then [ScheduleOsExit] else []) \<and>
         running st' = (if truthy force then running st else False) \<and>
         server_socket st' = server_socket st \<and> discovery_socket st' = discovery_socket st \<and>
         cleanup_done st' = cleanup_done st \<and> player_ws st' = player_ws st \<and>
         gloves_cleanup_done st' = gloves_cleanup_done st \<and>
         array_cleanup_done st' = array_cleanup_done st \<and>
         thread_should_exit st' = thread_should_exit st \<and>
         event_handlers st' = event_handlers st \<and>
         fst (handle_shutdown env (PDict d) cid c st) = Inr None \<and>
         (\<exists>rest. trace (stop env' st') = trace st' @ rest)"
proof -
  have p: "(case env_params cd of None \<Rightarrow> PDict [] | Some p \<Rightarrow> p) = PDict d"
    using params by auto
  have st'_eq: "st' = initiate_shutdown force
      (send_response env (PDict [(''success'', PBool True), (''message'', PStr ''Server is shutting down''),
                        (''force'', force)]) cid c
         (track_command env c cid (Some ''shutdown'') (register_client cid ad st)))"
    using cmd p
    by (simp add: st' process_command_def Let_def command_handlers_shutdown handle_shutdown_def
        cid c force)
  have main: "trace st' = trace st @ (if deliverable env st a msg then [SendTo a msg] else [])
                       @ (if truthy force then [ScheduleOsExit] else []) \<and>
         running st' = (if truthy force then running st else False) \<and>
         server_socket st' = server_socket st \<and> discovery_socket st' = discovery_socket st \<and>
         cleanup_done st' = cleanup_done st \<and> player_ws st' = player_ws st \<and>
         gloves_cleanup_done st' = gloves_cleanup_done st \<and>
         array_cleanup_done st' = array_cleanup_done st \<and>
         thread_should_exit st' = thread_should_exit st \<and>
         event_handlers st' = event_handlers st"
    unfolding st'_eq a msg
    by (cases "current_clients st cid"; cases "server_socket st")
       (simp_all add: initiate_shutdown_def send_response_def sendto_def log_action_def
          track_command_def register_client_def deliverable_def)
  have "fst (handle_shutdown env (PDict d) cid c st) = Inr None"
    by (simp add: handle_shutdown_def Let_def)
  then show ?thesis using main trace_stop[of env' st'] by simp
qed

theorem shutdown_responds_first_witness:
  "trace (process_command quiet_env (Envelope (command_envelope ''shutdown'' [] ''k1'' ''c1''))
            (''10.0.0.1'', 5000) started_state) =
     [SendTo (''10.0.0.1'', 5000)
        (response_msg quiet_env ''k1''
           (PDict [(''success'', PBool True), (''message'', PStr ''Server is shutting down''),
                   (''force'', PBool False)]))] \<and>
   \<not> running (process_command quiet_env (Envelope (command_envelope ''shutdown'' [] ''k1'' ''c1''))
            (''10.0.0.1'', 5000) started_state) \<and>
   trace (process_command quiet_env
            (Envelope (command_envelope ''shutdown'' [(''force'', PBool True)] ''k1'' ''c1''))
            (''10.0.0.1'', 5000) started_state) =
     [SendTo (''10.0.0.1'', 5000)
        (response_msg quiet_env ''k1''
           (PDict [(''success'', PBool True), (''message'', PStr ''Server is shutting down''),
                   (''force'', PBool True)])),
      ScheduleOsExit]"
proof -
  let ?cd = "\<lambda>d. command_envelope ''shutdown'' d ''k1'' ''c1''"
  have h: "\<And>d. env_command (?cd d) = Some ''shutdown''"
       "\<And>d. env_params (?cd d) = Some (PDict d) \<or> env_params (?cd d) = None \<and> d = []"
       "\<And>d. ''c1'' = envelope_client_id (''10.0.0.1'', 5000) (?cd d)"
       "\<And>d. ''k1'' = envelope_command_id quiet_env (?cd d)"
       "(''10.0.0.1'', 5000) = (case current_clients started_state ''c1'' of
            None \<Rightarrow> (''10.0.0.1'', 5000::int) | Some a0 \<Rightarrow> a0)"
    by (simp_all add: command_envelope_def envelope_client_id_def envelope_command_id_def
        started_state_def)
  have f: "PBool False = dict_get [] ''force'' (PBool False)"
          "PBool True = dict_get [(''force'', PBool True)] ''force'' (PBool False)"
    by (simp_all add: dict_get_def)
  have tr: "trace started_state = []" "running started_state"
    by (simp_all add: started_state_def)
  have del: "\<And>m. deliverable quiet_env started_state (''10.0.0.1'', 5000) m"
    by (simp add: deliverable_def started_state_def quiet_env_def)
  show ?thesis
    using shutdown_responds_first[OF h(1) h(2) h(3) h(4) h(5) f(1) refl refl, of quiet_env]
      shutdown_responds_first[OF h(1) h(2) h(3) h(4) h(5) f(2) refl refl, of quiet_env]
    by (simp add: del tr)
qed


section \<open>Playback tasks and their terminal events\<close>

lemma motor_cell_fields:
  "motor_cell env panel step dur st rc = (r, st') \<Longrightarrow>
   current_clients st' = current_clients st \<and> event_handlers st' = event_handlers st \<and>
   server_socket st' = server_socket st \<and> sent st' = sent st"
  by (auto simp: motor_cell_def Let_def log_action_def sent_def split: sum.splits if_splits)

lemma motor_cells_fields:
  "motor_cells env panel step dur rcs st = (r, st') \<Longrightarrow>
   current_clients st' = current_clients st \<and> event_handlers st' = event_handlers st \<and>
   server_socket st' = server_socket st \<and> sent st' = sent st"
proof (induction rcs arbitrary: st)
  case Nil
  then show ?case by simp
next
  case (Cons rc rcs)
  obtain r1 st1 where c: "motor_cell env panel step dur st rc = (r1, st1)"
    by (cases "motor_cell env panel step dur st rc")
  note f = motor_cell_fields[OF c]
  show ?case
  proof (cases r1)
    case None
    then have "motor_cells env panel step dur rcs st1 = (r, st')"
      using Cons.prems c by simp
    from Cons.IH[OF this] f show ?thesis by simp
  next
    case (Some e)
    then have "st' = st1" using Cons.prems c by simp
    then show ?thesis using f by simp
  qed
qed

lemma activate_motor_array_fields:
  assumes a: "activate_motor_array env step dur st = (r, st')"
  shows "current_clients st' = current_clients st \<and> event_handlers st' = event_handlers st \<and>
   server_socket st' = server_socket st \<and> sent st' = sent st"
proof -
  obtain r1 st1 where c: "motor_cells env ''front'' step dur grid_cells st = (r1, st1)"
    by (cases "motor_cells env ''front'' step dur grid_cells st")
  note f = motor_cells_fields[OF c]
  show ?thesis
  proof (cases r1)
    case None
    obtain r2 st2 where b: "motor_cells env ''back'' step dur grid_cells st1 = (r2, st2)"
      by (cases "motor_cells env ''back'' step dur grid_cells st1")
    note g = motor_cells_fields[OF b]
    have "st' = st2"
      using a c b None by (cases r2) (simp_all add: activate_motor_array_def)
    then show ?thesis using f g by simp
  next
    case (Some e)
    then have "st' = st1" using a c by (simp add: activate_motor_array_def)
    then show ?thesis using f by simp
  qed
qed

lemma play_step_fields:
  assumes a: "play_step env p dur se st = (r, st')"
  shows "current_clients st' = current_clients st \<and> event_handlers st' = event_handlers st \<and>
   server_socket st' = server_socket st \<and> sent st' = sent st"
proof -
  obtain r1 st1 where c: "activate_motor_array env p dur st = (r1, st1)"
    by (cases "activate_motor_array env p dur st")
  have "st' = st1" using a c by (cases r1) (simp_all add: play_step_def)
  then show ?thesis using activate_motor_array_fields[OF c] by simp
qed

lemma send_event_to_fields:
  "current_clients (send_event_to env ety data st cid) = current_clients st \<and>
   server_socket (send_event_to env ety data st cid) = server_socket st"
  by (auto simp: send_event_to_def sendto_def log_action_def split: option.splits sock.splits)

lemma sent_send_event_to:
  "sent (send_event_to env ety data st cid) = sent st @ client_delivery env st ety data cid"
  by (auto simp: send_event_to_def sendto_def deliverable_def log_action_def sent_def
      client_delivery_def split: option.splits sock.splits)

lemma client_delivery_same:
  "current_clients st' = current_clients st \<Longrightarrow> server_socket st' = server_socket st \<Longrightarrow>
   client_delivery env st' ety data = client_delivery env st ety data"
  by (rule ext) (simp add: client_delivery_def deliverable_def split: option.splits)

lemma sent_foldl_send_event_to:
  "sent (foldl (send_event_to env ety data) st cids) =
     sent st @ concat (map (client_delivery env st ety data) cids)"
proof (induction cids arbitrary: st)
  case Nil
  then show ?case by simp
next
  case (Cons c cs)
  have same: "client_delivery env (send_event_to env ety data st c) ety data =
      client_delivery env st ety data"
    using send_event_to_fields[of env ety data st c]
    by (intro client_delivery_same) simp_all
  show ?case
    by (simp add: Cons.IH same sent_send_event_to)
qed

lemma sent_send_event:
  "sent (send_event env ety data target st) = sent st @ event_delivery env st ety data target"
  by (simp add: send_event_def event_delivery_def sent_foldl_send_event_to)

lemma event_delivery_same:
  assumes "current_clients st' = current_clients st" "event_handlers st' = event_handlers st"
    "server_socket st' = server_socket st"
  shows "event_delivery env st' ety data target = event_delivery env st ety data target"
proof -
  have "event_recipients st' ety target = event_recipients st ety target"
    using assms(2) by (simp add: event_recipients_def)
  moreover have "client_delivery env st' ety data = client_delivery env st ety data"
    using assms(1,3) by (rule client_delivery_same)
  ultimately show ?thesis by (simp add: event_delivery_def)
qed

lemma event_delivery_targeted:
  "target \<noteq> [] \<Longrightarrow>
   event_delivery env st ety data target =
     (if target \<in> set (subscribers st ety) then client_delivery env st ety data target else [])"
  by (auto simp: event_delivery_def event_recipients_def subscribers_def Let_def
      split: option.splits)

lemma event_delivery_broadcast:
  "event_delivery env st ety data [] =
     concat (map (client_delivery env st ety data) (subscribers st ety))"
  by (simp add: event_delivery_def event_recipients_def subscribers_def Let_def)

lemma array_task_step_suspends:
  assumes "array_task_step env dd ed dur se cid resume steps st = (st', Some t')"
  shows "sent st' = sent st \<and> (\<exists>p ps. steps = p # ps \<and> t' = resume ps)"
proof (cases steps)
  case Nil
  then show ?thesis using assms by (simp add: array_task_step_def)
next
  case (Cons p ps)
  show ?thesis
  proof (cases "running st")
    case False
    then show ?thesis using assms Cons by (simp add: array_task_step_def)
  next
    case True
    obtain r st1 where a: "play_step env p dur se st = (r, st1)"
      by (cases "play_step env p dur se st")
    note f = play_step_fields[OF a]
    show ?thesis
    proof (cases r)
      case None
      then have "st' = st1" "t' = resume ps"
        using assms Cons True a by (simp_all add: array_task_step_def)
      then show ?thesis using f Cons by simp
    next
      case (Some e)
      then show ?thesis using assms Cons True a by (simp add: array_task_step_def)
    qed
  qed
qed

lemma array_task_step_ends:
  assumes "array_task_step env dd ed dur se cid resume steps st = (st', None)"
    and "running st \<or> steps = []"
  shows "\<exists>data. sent st' = sent st @
           event_delivery env st
             (if array_step_failure env steps dur se st = None then ''pattern_complete''
              else ''pattern_error'') data cid"
proof (cases steps)
  case Nil
  then have "st' = send_event env ''pattern_complete'' (PDict dd) cid st"
    using assms(1) by (simp add: array_task_step_def)
  then have "sent st' = sent st @ event_delivery env st ''pattern_complete'' (PDict dd) cid"
    by (simp add: sent_send_event)
  moreover have "array_step_failure env steps dur se st = None"
    using Nil by (simp add: array_step_failure_def)
  ultimately show ?thesis by (intro exI[of _ "PDict dd"]) simp
next
  case (Cons p ps)
  then have run: "running st" using assms(2) by simp
  obtain r st1 where a: "play_step env p dur se st = (r, st1)"
    by (cases "play_step env p dur se st")
  note f = play_step_fields[OF a]
  have step: "array_task_step env dd ed dur se cid resume steps st =
      (case r of
         Some e \<Rightarrow> (send_event env ''pattern_error''
                       (PDict (ed @ [(''error'', PStr (exn_str e))])) cid st1, None)
       | None \<Rightarrow> (st1, Some (resume ps)))"
    using Cons run a by (simp add: array_task_step_def)
  show ?thesis
  proof (cases r)
    case None
    then show ?thesis using step assms(1) by simp
  next
    case (Some e)
    then have st': "st' = send_event env ''pattern_error''
        (PDict (ed @ [(''error'', PStr (exn_str e))])) cid st1"
      using step assms(1) by simp
    have "sent st' = sent st1 @ event_delivery env st1 ''pattern_error''
           (PDict (ed @ [(''error'', PStr (exn_str e))])) cid"
      unfolding st' by (rule sent_send_event)
    then have "sent st' = sent st @ event_delivery env st ''pattern_error''
           (PDict (ed @ [(''error'', PStr (exn_str e))])) cid"
      using f event_delivery_same[of st1 st env "''pattern_error''"
              "PDict (ed @ [(''error'', PStr (exn_str e))])" cid]
      by simp
    moreover have "array_step_failure env steps dur se st = Some e"
      using Cons a Some by (simp add: array_step_failure_def)
    ultimately show ?thesis
      by (intro exI[of _ "PDict (ed @ [(''error'', PStr (exn_str e))])"]) simp
  qed
qed

lemma task_step_suspends:
  "task_step env t st = (st', Some t') \<Longrightarrow> sent st' = sent st \<and> steps_left t' < steps_left t"
  by (cases t) (auto simp: Let_def split: option.splits dest!: array_task_step_suspends)

lemma task_step_ends:
  assumes "task_step env t st = (st', None)" and "running st \<or> steps_left t = 0"
  shows "\<exists>data. sent st' = sent st @
           event_delivery env st
             (if step_failure env t st = None then ''pattern_complete'' else ''pattern_error'')
             data (task_client t)"
proof (cases t)
  case (PlayPattern pattern_file key cid c)
  let ?st1 = "log_action LoadAndPlayTactFile st"
  have f1: "sent ?st1 = sent st"
    by (simp add: log_action_def sent_def)
  have f2: "\<And>ety data. event_delivery env ?st1 ety data cid = event_delivery env st ety data cid"
    by (intro event_delivery_same) (simp_all add: log_action_def)
  note f = f1 f2
  show ?thesis
    using assms PlayPattern f
    by (cases "load_and_play_tact_file env") (auto simp: Let_def sent_send_event)
next
  case (PlayWave steps cid c)
  then show ?thesis using assms
    by (auto simp: Let_def dest!: array_task_step_ends)
next
  case (PlayAlternating steps cid c)
  then show ?thesis using assms
    by (auto simp: Let_def dest!: array_task_step_ends)
next
  case (PlayCustom pattern steps dur cid c)
  then show ?thesis using assms
    by (auto simp: Let_def dest!: array_task_step_ends)
qed

lemma run_task_finishes:
  "steps_left t < n \<Longrightarrow> snd (run_task env others n t st) = None"
proof (induction n arbitrary: t st)
  case 0
  then show ?case by simp
next
  case (Suc n)
  obtain st' r where s: "task_step env t st = (st', r)" by (cases "task_step env t st")
  show ?case
  proof (cases r)
    case None
    then show ?thesis using s by simp
  next
    case (Some t')
    then have "steps_left t' < steps_left t" using s task_step_suspends by blast
    then have "steps_left t' < n" using Suc.prems by simp
    from Suc.IH[OF this] show ?thesis using s Some by simp
  qed
qed

text \<open>
  Claim C3, amended. A resumption that suspends a playback task sends nothing and leaves
  fewer steps. A resumption that ends the task, after the last step or on an exception
  (of the player, of a malformed step, or of the float conversion of the duration), calls
  \<^verbatim>\<open>_send_event\<close> once, with \<^verbatim>\<open>pattern_complete\<close> when no exception arose and \<^verbatim>\<open>pattern_error\<close>
  otherwise, with the command's client id as target. For a non-empty client id the
  datagrams sent are a single event datagram to the registry address of that client when
  the client is itself subscribed to the event type and the datagram goes out, and none
  at all otherwise: no other subscriber receives the event. For the empty client id the
  event has no target and goes to every subscriber that is in the registry. Every task
  ends within one resumption more than it has steps left.
\<close>

theorem terminal_event_delivery:
  "(task_step env t st = (st', Some t') \<longrightarrow> sent st' = sent st \<and> steps_left t' < steps_left t) \<and>
   (task_step env t st = (st', None) \<and> (running st \<or> steps_left t = 0) \<longrightarrow>
      (\<exists>data. sent st' = sent st @
         event_delivery env st
           (if step_failure env t st = None then ''pattern_complete'' else ''pattern_error'')
           data (task_client t))) \<and>
   (task_client t \<noteq> [] \<longrightarrow>
      event_delivery env st ety data (task_client t) =
        (if task_client t \<in> set (subscribers st ety)
         then client_delivery env st ety data (task_client t) else [])) \<and>
   (task_client t = [] \<longrightarrow>
      event_delivery env st ety data (task_client t) =
        concat (map (client_delivery env st ety data) (subscribers st ety))) \<and>
   snd (run_task env others (Suc (steps_left t)) t st) = None"
  using task_step_suspends[of env t st st' t'] task_step_ends[of env t st st']
    run_task_finishes[of t "Suc (steps_left t)" env others st]
    event_delivery_targeted[of "task_client t" env st ety data]
    event_delivery_broadcast[of env st ety data]
  by simp


lemma grid_cells_eval:
  "grid_cells = [(0,0),(0,1),(0,2),(0,3),(1,0),(1,1),(1,2),(1,3),(2,0),(2,1),(2,2),(2,3),
                 (3,0),(3,1),(3,2),(3,3),(4,0),(4,1),(4,2),(4,3)]"
  by (simp add: grid_cells_def upt_rec)

lemma float_limit_huge: "float_limit \<le> \<bar>2 ^ 1024\<bar>"
  by (simp add: float_limit_def)

lemma float_limit_small: "\<not> float_limit \<le> \<bar>500\<bar>"
  by (simp add: float_limit_def)

lemma wave_first_step_huge:
  "fst (activate_motor_array quiet_env (hd WAVE_PATTERN) (PInt (2 ^ 1024)) st) =
     Some (OverflowError ''int too large to convert to float'')"
  by (simp add: activate_motor_array_def grid_cells_eval motor_cell_def WAVE_PATTERN_def
      pattern_step_def row4_def Let_def gt_zero_def quiet_env_def div_float_error_def
      float_limit_def split: prod.splits)

lemma wave_first_step_ok:
  "fst (activate_motor_array quiet_env (hd WAVE_PATTERN) (PInt 500) st) = None"
  by (simp add: activate_motor_array_def grid_cells_eval motor_cell_def WAVE_PATTERN_def
      pattern_step_def row4_def Let_def gt_zero_def quiet_env_def div_float_error_def
      float_limit_def split: prod.splits)


lemma play_step_fst:
  "fst (play_step env p dur se st) =
     (case fst (activate_motor_array env p dur st) of Some e \<Rightarrow> Some e | None \<Rightarrow> se)"
  by (cases "activate_motor_array env p dur st") (auto simp: play_step_def split: option.splits)

lemma array_task_step_running:
  "running st \<Longrightarrow>
   snd (array_task_step env dd ed dur se cid resume (p # ps) st) =
     (case fst (play_step env p dur se st) of Some e \<Rightarrow> None | None \<Rightarrow> Some (resume ps))"
  by (cases "play_step env p dur se st") (auto simp: array_task_step_def split: option.splits)

lemma bystander_facts:
  "current_clients bystander_state ''c1'' = Some (''10.0.0.1'', 5000)"
  "current_clients bystander_state ''c2'' = Some (''10.0.0.2'', 5001)"
  "subscribers bystander_state ''pattern_complete'' = [''c2'']"
  "sent bystander_state = []"
  "running bystander_state"
  "server_socket bystander_state = OpenSocket"
  by (simp_all add: bystander_state_def started_state_def subscribers_def sent_def)

lemma subscribed_facts:
  "current_clients subscribed_state ''c1'' = Some (''10.0.0.1'', 5000)"
  "subscribers subscribed_state ''pattern_complete'' = [''c1'']"
  "subscribers subscribed_state ''pattern_error'' = [''c1'']"
  "sent subscribed_state = []"
  "running subscribed_state"
  "server_socket subscribed_state = OpenSocket"
  by (simp_all add: subscribed_state_def registered_state_def started_state_def subscribers_def sent_def)

lemma quiet_deliverable:
  "server_socket st = OpenSocket \<Longrightarrow> deliverable quiet_env st a m"
  by (simp add: deliverable_def quiet_env_def)

text \<open>
  Four runs: a finished wave task of the subscribed client \<open>c1\<close>; a finished wave task with
  the empty client id, whose event reaches the subscriber \<open>c2\<close>; the first resumption of a
  wave task, which suspends without sending; a custom task whose duration is \<open>2^1024\<close>
  milliseconds, which ends with \<^verbatim>\<open>pattern_error\<close> after the OverflowError of the division.
\<close>

theorem terminal_event_delivery_witness:
  "snd (task_step quiet_env (PlayWave [] ''c1'' ''k1'') subscribed_state) = None \<and>
   sent (fst (task_step quiet_env (PlayWave [] ''c1'' ''k1'') subscribed_state)) =
     [((''10.0.0.1'', 5000),
       event_msg quiet_env ''pattern_complete''
         (PDict [(''pattern_type'', PStr ''wave''), (''command_id'', PStr ''k1'')]))] \<and>
   (\<exists>data. sent (fst (task_step quiet_env (PlayWave [] ''c1'' ''k1'') subscribed_state)) =
      sent subscribed_state @
      event_delivery quiet_env subscribed_state ''pattern_complete'' data ''c1'') \<and>
   snd (task_step quiet_env (PlayWave [] [] ''k1'') bystander_state) = None \<and>
   (\<exists>data. sent (fst (task_step quiet_env (PlayWave [] [] ''k1'') bystander_state)) =
      [((''10.0.0.2'', 5001), event_msg quiet_env ''pattern_complete'' data)]) \<and>
   snd (task_step quiet_env (PlayWave WAVE_PATTERN ''c1'' ''k1'') subscribed_state) =
     Some (PlayWave (tl WAVE_PATTERN) ''c1'' ''k1'') \<and>
   sent (fst (task_step quiet_env (PlayWave WAVE_PATTERN ''c1'' ''k1'') subscribed_state)) = [] \<and>
   step_failure quiet_env
     (PlayCustom [hd WAVE_PATTERN] [hd WAVE_PATTERN] (PInt (2 ^ 1024)) ''c1'' ''k2'')
     subscribed_state = Some (OverflowError ''int too large to convert to float'') \<and>
   (\<exists>data. sent (fst (task_step quiet_env
        (PlayCustom [hd WAVE_PATTERN] [hd WAVE_PATTERN] (PInt (2 ^ 1024)) ''c1'' ''k2'')
        subscribed_state)) =
      [((''10.0.0.1'', 5000), event_msg quiet_env ''pattern_error'' data)])"
proof -
  let ?t1 = "PlayWave [] ''c1'' ''k1''"
  let ?t2 = "PlayWave [] [] ''k1''"
  let ?t3 = "PlayWave WAVE_PATTERN ''c1'' ''k1''"
  let ?t4 = "PlayCustom [hd WAVE_PATTERN] [hd WAVE_PATTERN] (PInt (2 ^ 1024)) ''c1'' ''k2''"
  let ?s = subscribed_state and ?b = bystander_state
  have wave: "WAVE_PATTERN = hd WAVE_PATTERN # tl WAVE_PATTERN"
    by (simp add: WAVE_PATTERN_def Let_def)
  have del_c1: "\<And>ety data. ety = ''pattern_complete'' \<or> ety = ''pattern_error'' \<Longrightarrow>
      event_delivery quiet_env ?s ety data ''c1'' = [((''10.0.0.1'', 5000), event_msg quiet_env ety data)]"
    by (auto simp: event_delivery_targeted client_delivery_def subscribed_facts quiet_deliverable)
  have del_all: "\<And>data. event_delivery quiet_env ?b ''pattern_complete'' data [] =
      [((''10.0.0.2'', 5001), event_msg quiet_env ''pattern_complete'' data)]"
    by (simp add: event_delivery_broadcast client_delivery_def bystander_facts quiet_deliverable)
  have e1: "snd (task_step quiet_env ?t1 ?s) = None" "step_failure quiet_env ?t1 ?s = None"
    by (simp_all add: array_task_step_def array_step_failure_def)
  have e2: "snd (task_step quiet_env ?t2 ?b) = None" "step_failure quiet_env ?t2 ?b = None"
    by (simp_all add: array_task_step_def array_step_failure_def)
  have e3: "snd (task_step quiet_env ?t3 ?s) = Some (PlayWave (tl WAVE_PATTERN) ''c1'' ''k1'')"
    using wave_first_step_ok[of ?s]
    by (subst wave) (simp add: Let_def array_task_step_running subscribed_facts play_step_fst)
  have f4: "step_failure quiet_env ?t4 ?s = Some (OverflowError ''int too large to convert to float'')"
    using wave_first_step_huge[of ?s]
    by (simp add: array_step_failure_def play_step_fst)
  have e4: "snd (task_step quiet_env ?t4 ?s) = None"
    using wave_first_step_huge[of ?s]
    by (simp add: Let_def array_task_step_running subscribed_facts play_step_fst)
  have p1: "task_step quiet_env ?t1 ?s = (fst (task_step quiet_env ?t1 ?s), None)"
    using e1(1) by (metis prod.collapse)
  have p2: "task_step quiet_env ?t2 ?b = (fst (task_step quiet_env ?t2 ?b), None)"
    using e2(1) by (metis prod.collapse)
  have p3: "task_step quiet_env ?t3 ?s =
      (fst (task_step quiet_env ?t3 ?s), Some (PlayWave (tl WAVE_PATTERN) ''c1'' ''k1''))"
    using e3 by (metis prod.collapse)
  have p4: "task_step quiet_env ?t4 ?s = (fst (task_step quiet_env ?t4 ?s), None)"
    using e4 by (metis prod.collapse)
  have s1: "sent (fst (task_step quiet_env ?t1 ?s)) =
     [((''10.0.0.1'', 5000),
       event_msg quiet_env ''pattern_complete''
         (PDict [(''pattern_type'', PStr ''wave''), (''command_id'', PStr ''k1'')]))]"
    by (simp add: array_task_step_def sent_send_event del_c1 subscribed_facts)
  have ends: "\<And>t st data0. task_step quiet_env t st = (fst (task_step quiet_env t st), None) \<Longrightarrow>
      running st \<Longrightarrow>
      \<exists>data. sent (fst (task_step quiet_env t st)) = sent st @
         event_delivery quiet_env st
           (if step_failure quiet_env t st = None then ''pattern_complete'' else ''pattern_error'')
           data (task_client t)"
    using terminal_event_delivery[of quiet_env _ _ _ _] by blast
  have c1: "\<exists>data. sent (fst (task_step quiet_env ?t1 ?s)) =
      sent ?s @ event_delivery quiet_env ?s ''pattern_complete'' data ''c1''"
    using ends[OF p1 subscribed_facts(5)] unfolding e1(2) by simp
  have c2: "\<exists>data. sent (fst (task_step quiet_env ?t2 ?b)) =
      [((''10.0.0.2'', 5001), event_msg quiet_env ''pattern_complete'' data)]"
    using ends[OF p2 bystander_facts(5)] unfolding e2(2) bystander_facts(4)
    by (simp add: del_all)
  have c3: "sent (fst (task_step quiet_env ?t3 ?s)) = []"
    using terminal_event_delivery[of quiet_env ?t3 ?s "fst (task_step quiet_env ?t3 ?s)"
      "PlayWave (tl WAVE_PATTERN) ''c1'' ''k1''"] p3 subscribed_facts(4)
    by metis
  have c4: "\<exists>data. sent (fst (task_step quiet_env ?t4 ?s)) =
      [((''10.0.0.1'', 5000), event_msg quiet_env ''pattern_error'' data)]"
    using ends[OF p4 subscribed_facts(5)] unfolding f4 subscribed_facts(4)
    by (simp add: del_c1)
  show ?thesis
    using e1(1) s1 c1 e2(1) c2 e3 c3 f4 c4 by blast
qed

text \<open>
  The claim as stated fails on the delivery: a wave task of the registered but
  unsubscribed client \<open>c1\<close> ends without any datagram, although client \<open>c2\<close> is subscribed
  to \<^verbatim>\<open>pattern_complete\<close>. Neither the originator nor the subscriber is told.
\<close>

theorem terminal_event_counterexample:
  "snd (task_step quiet_env (PlayWave [] ''c1'' ''k1'') bystander_state) = None \<and>
   sent (fst (task_step quiet_env (PlayWave [] ''c1'' ''k1'') bystander_state)) = [] \<and>
   current_clients bystander_state ''c1'' = Some (''10.0.0.1'', 5000) \<and>
   current_clients bystander_state ''c2'' = Some (''10.0.0.2'', 5001) \<and>
   ''c2'' \<in> set (subscribers bystander_state ''pattern_complete'')"
  by (simp add: array_task_step_def sent_send_event event_delivery_targeted bystander_facts)

text \<open>
  Claim C2, evaluated on the code. A wave task resumed with three steps left while the
  run flag is clear leaves its loop by \<^verbatim>\<open>break\<close> and goes on to the statement after the
  loop, which sends \<^verbatim>\<open>pattern_complete\<close>; the subscribed originator receives that event.
  A custom task aborted in the same way does the same.
\<close>

theorem aborted_task_sends_pattern_complete:
  "task_step quiet_env (PlayWave (drop 2 WAVE_PATTERN) ''c1'' ''k1'')
       (subscribed_state\<lparr>running := False\<rparr>) =
     (send_event quiet_env ''pattern_complete''
        (PDict [(''pattern_type'', PStr ''wave''), (''command_id'', PStr ''k1'')]) ''c1''
        (subscribed_state\<lparr>running := False\<rparr>), None) \<and>
   sent (fst (task_step quiet_env (PlayWave (drop 2 WAVE_PATTERN) ''c1'' ''k1'')
                (subscribed_state\<lparr>running := False\<rparr>))) =
     [((''10.0.0.1'', 5000),
       event_msg quiet_env ''pattern_complete''
         (PDict [(''pattern_type'', PStr ''wave''), (''command_id'', PStr ''k1'')]))] \<and>
   sent (fst (task_step quiet_env
                (PlayCustom [PDict [], PDict []] [PDict []] (PInt 500) ''c1'' ''k2'')
                (subscribed_state\<lparr>running := False\<rparr>))) =
     [((''10.0.0.1'', 5000),
       event_msg quiet_env ''pattern_complete''
         (PDict [(''pattern_type'', PStr ''custom''), (''command_id'', PStr ''k2''),
                 (''steps'', PInt 2)]))]"
proof -
  have fields: "current_clients subscribed_state ''c1'' = Some (''10.0.0.1'', 5000)"
    "event_handlers subscribed_state ''pattern_complete'' = Some [''c1'']"
    "trace subscribed_state = []" "server_socket subscribed_state = OpenSocket"
    by (simp_all add: subscribed_state_def registered_state_def started_state_def)
  have net: "\<And>a m. \<not> sendto_fails quiet_env a m"
    by (simp add: quiet_env_def)
  have w: "drop 2 WAVE_PATTERN \<noteq> []"
    by (simp add: WAVE_PATTERN_def Let_def)
  then obtain p ps where d: "drop 2 WAVE_PATTERN = p # ps"
    by (cases "drop 2 WAVE_PATTERN") auto
  have nothing_sent: "sent (subscribed_state\<lparr>running := False\<rparr>) = []"
    by (simp add: sent_def fields)
  show ?thesis
    by (simp add: d array_task_step_def sent_send_event event_delivery_targeted
        client_delivery_def subscribers_def deliverable_def nothing_sent fields net)
qed


end
